theory Spec2Isabelle
  imports Complex_Main "HOL-Library.Word"
begin

text \<open>
  The session store and the role-dependent dashboard of the hotel-sites front end:
  \<^verbatim>\<open>src/contexts/AuthContext.tsx\<close> (login, logout, the restore of the persisted
  user, \<^verbatim>\<open>useAuth\<close>) and \<^verbatim>\<open>src/pages/Dashboard.tsx\<close> (the choice between
  the two views), with the parts of JavaScript they rest on: strings of 16-bit code
  units, \<^verbatim>\<open>String.prototype.split\<close>, \<^verbatim>\<open>JSON.stringify\<close>, \<^verbatim>\<open>JSON.parse\<close>,
  truthiness and \<^verbatim>\<open>localStorage\<close>.
\<close>

section \<open>JavaScript values used by the session store\<close>

text \<open>
  A JavaScript string is a sequence of 16-bit code units; \<open>length\<close> counts code units,
  as \<^verbatim>\<open>password.length\<close> does. \<open>js\<close> turns an ASCII literal of this theory into
  such a string.
\<close>

type_synonym code_unit = "16 word"
type_synonym jsstring = "code_unit list"

definition js :: "string \<Rightarrow> jsstring" where
  "js s = map of_char s"

text \<open>
  The values \<^verbatim>\<open>JSON.parse\<close> can return. A number is kept as the exact value of its
  literal, not rounded to a double; an object is the list of its own properties in the
  order of their creation (JavaScript enumerates integer-like keys first; nothing here
  enumerates an object).
\<close>

datatype jsval =
    JNull
  | JBool bool
  | JNum rat
  | JStr jsstring
  | JArr "jsval list"
  | JObj "(jsstring \<times> jsval) list"

text \<open>
  \<^verbatim>\<open>!!v\<close>: \<^verbatim>\<open>null\<close>, \<^verbatim>\<open>false\<close>, zero and the empty string are falsy. A number
  literal denotes zero as a double exactly when its magnitude is at most \<open>2 ^ -1075\<close>
  (half the smallest subnormal, ties going to the even neighbour 0).
\<close>

fun truthy :: "jsval \<Rightarrow> bool" where
  "truthy JNull = False"
| "truthy (JBool b) = b"
| "truthy (JNum q) = (1 / 2 ^ 1075 < \<bar>q\<bar>)"
| "truthy (JStr s) = (s \<noteq> [])"
| "truthy (JArr xs) = True"
| "truthy (JObj ps) = True"

text \<open>Reading and defining an own property of an object.\<close>

definition get_prop :: "jsstring \<Rightarrow> (jsstring \<times> jsval) list \<Rightarrow> jsval option" where
  "get_prop k ps = map_of ps k"

fun put_prop :: "jsstring \<Rightarrow> jsval \<Rightarrow> (jsstring \<times> jsval) list \<Rightarrow> (jsstring \<times> jsval) list" where
  "put_prop k v [] = [(k, v)]"
| "put_prop k v (p # ps) = (if fst p = k then (k, v) # ps else p # put_prop k v ps)"

text \<open>
  \<^verbatim>\<open>s.split(sep)\<close> for a separator of one code unit: the pieces between the
  occurrences of the separator, never an empty array.
\<close>

fun split_js :: "code_unit \<Rightarrow> jsstring \<Rightarrow> jsstring list" where
  "split_js sep [] = [[]]"
| "split_js sep (c # cs) =
     (if c = sep then [] # split_js sep cs
      else (case split_js sep cs of
              [] \<Rightarrow> [[c]]
            | p # ps \<Rightarrow> (c # p) # ps))"

section \<open>JSON.stringify on strings and on objects of strings\<close>

definition hex_digit :: "nat \<Rightarrow> code_unit" where
  "hex_digit n = (if n < 10 then of_nat (0x30 + n) else of_nat (0x61 + (n - 10)))"

definition UnicodeEscape :: "code_unit \<Rightarrow> jsstring" where
  "UnicodeEscape c =
     (let n = unat c in
      [0x5C, 0x75, hex_digit (n div 4096), hex_digit (n div 256 mod 16),
       hex_digit (n div 16 mod 16), hex_digit (n mod 16)])"

definition is_leading_surrogate :: "code_unit \<Rightarrow> bool" where
  "is_leading_surrogate c = (0xD800 \<le> c \<and> c \<le> 0xDBFF)"

definition is_trailing_surrogate :: "code_unit \<Rightarrow> bool" where
  "is_trailing_surrogate c = (0xDC00 \<le> c \<and> c \<le> 0xDFFF)"

text \<open>
  The characters of a quoted string: the seven named escapes, \<^verbatim>\<open>\uXXXX\<close> for the
  other control characters and for a surrogate that is not part of a pair, and every
  other code unit as it is.
\<close>

fun quote_chars :: "jsstring \<Rightarrow> jsstring" where
  "quote_chars [] = []"
| "quote_chars (c # cs) =
     (if c = 0x08 then [0x5C, 0x62] @ quote_chars cs
      else if c = 0x09 then [0x5C, 0x74] @ quote_chars cs
      else if c = 0x0A then [0x5C, 0x6E] @ quote_chars cs
      else if c = 0x0C then [0x5C, 0x66] @ quote_chars cs
      else if c = 0x0D then [0x5C, 0x72] @ quote_chars cs
      else if c = 0x22 then [0x5C, 0x22] @ quote_chars cs
      else if c = 0x5C then [0x5C, 0x5C] @ quote_chars cs
      else if c < 0x20 then UnicodeEscape c @ quote_chars cs
      else if is_leading_surrogate c then
        (case cs of
           [] \<Rightarrow> UnicodeEscape c
         | d # ds \<Rightarrow>
             if is_trailing_surrogate d then c # d # quote_chars ds
             else UnicodeEscape c @ quote_chars cs)
      else if is_trailing_surrogate c then UnicodeEscape c @ quote_chars cs
      else c # quote_chars cs)"

definition QuoteJSONString :: "jsstring \<Rightarrow> jsstring" where
  "QuoteJSONString s = 0x22 # quote_chars s @ [0x22]"

text \<open>
  An object whose property values are all strings, serialized without indentation:
  \<^verbatim>\<open>{"k1":"v1","k2":"v2"}\<close>.
\<close>

fun serialize_members :: "(jsstring \<times> jsstring) list \<Rightarrow> jsstring" where
  "serialize_members [] = []"
| "serialize_members [(k, v)] = QuoteJSONString k @ [0x3A] @ QuoteJSONString v"
| "serialize_members ((k, v) # ps) =
     QuoteJSONString k @ [0x3A] @ QuoteJSONString v @ [0x2C] @ serialize_members ps"

definition SerializeJSONObject :: "(jsstring \<times> jsstring) list \<Rightarrow> jsstring" where
  "SerializeJSONObject ps = [0x7B] @ serialize_members ps @ [0x7D]"

section \<open>JSON.parse\<close>

subsection \<open>Tokens\<close>

datatype token =
    LBrace | RBrace | LBracket | RBracket | Colon | Comma
  | TString jsstring
  | TNumber rat
  | TTrue | TFalse | TNull

definition is_ws :: "code_unit \<Rightarrow> bool" where
  "is_ws c = (c = 0x09 \<or> c = 0x0A \<or> c = 0x0D \<or> c = 0x20)"

definition is_digit :: "code_unit \<Rightarrow> bool" where
  "is_digit c = (0x30 \<le> c \<and> c \<le> 0x39)"

definition hex_value :: "code_unit \<Rightarrow> nat option" where
  "hex_value h =
     (let n = unat h in
      if 0x30 \<le> n \<and> n \<le> 0x39 then Some (n - 0x30)
      else if 0x41 \<le> n \<and> n \<le> 0x46 then Some (n - 0x41 + 10)
      else if 0x61 \<le> n \<and> n \<le> 0x66 then Some (n - 0x61 + 10)
      else None)"

definition hex4 :: "code_unit \<Rightarrow> code_unit \<Rightarrow> code_unit \<Rightarrow> code_unit \<Rightarrow> code_unit option" where
  "hex4 h1 h2 h3 h4 =
     (case (hex_value h1, hex_value h2, hex_value h3, hex_value h4) of
        (Some a, Some b, Some c, Some d) \<Rightarrow> Some (of_nat (((a * 16 + b) * 16 + c) * 16 + d))
      | _ \<Rightarrow> None)"

definition unescape :: "code_unit \<Rightarrow> code_unit option" where
  "unescape e =
     (if e = 0x22 then Some 0x22
      else if e = 0x5C then Some 0x5C
      else if e = 0x2F then Some 0x2F
      else if e = 0x62 then Some 0x08
      else if e = 0x66 then Some 0x0C
      else if e = 0x6E then Some 0x0A
      else if e = 0x72 then Some 0x0D
      else if e = 0x74 then Some 0x09
      else None)"

definition scons :: "code_unit \<Rightarrow> (jsstring \<times> jsstring) option \<Rightarrow> (jsstring \<times> jsstring) option" where
  "scons c r = (case r of None \<Rightarrow> None | Some (s, rest) \<Rightarrow> Some (c # s, rest))"

text \<open>
  The characters of a string literal after its opening quote, up to the closing quote:
  the string denoted and the input that follows. A raw control character, a bad escape
  and a missing closing quote are syntax errors.
\<close>

fun lex_string :: "jsstring \<Rightarrow> (jsstring \<times> jsstring) option" where
  "lex_string [] = None"
| "lex_string (c # cs) =
     (if c = 0x22 then Some ([], cs)
      else if c = 0x5C then
        (case cs of
           [] \<Rightarrow> None
         | e # cs1 \<Rightarrow>
             if e = 0x75 then
               (case cs1 of
                  h1 # h2 # h3 # h4 # cs2 \<Rightarrow>
                    (case hex4 h1 h2 h3 h4 of
                       None \<Rightarrow> None
                     | Some u \<Rightarrow> scons u (lex_string cs2))
                | _ \<Rightarrow> None)
             else
               (case unescape e of
                  None \<Rightarrow> None
                | Some u \<Rightarrow> scons u (lex_string cs1)))
      else if c < 0x20 then None
      else scons c (lex_string cs))"

text \<open>Number literals: \<^verbatim>\<open>-?(0|[1-9][0-9]*)(\.[0-9]+)?([eE][+-]?[0-9]+)?\<close>.\<close>

definition digits_value :: "jsstring \<Rightarrow> nat" where
  "digits_value ds = foldl (\<lambda>a d. 10 * a + (unat d - 0x30)) 0 ds"

definition lex_int :: "jsstring \<Rightarrow> (nat \<times> jsstring) option" where
  "lex_int cs =
     (case cs of
        [] \<Rightarrow> None
      | d # r \<Rightarrow>
          if d = 0x30 then Some (0, r)
          else if is_digit d then
            Some (digits_value (takeWhile is_digit cs), dropWhile is_digit cs)
          else None)"

definition lex_frac :: "jsstring \<Rightarrow> (rat \<times> jsstring) option" where
  "lex_frac cs =
     (case cs of
        [] \<Rightarrow> Some (0, cs)
      | c # r \<Rightarrow>
          if c = 0x2E then
            (let ds = takeWhile is_digit r in
             if ds = [] then None
             else Some (of_nat (digits_value ds) / 10 ^ length ds, dropWhile is_digit r))
          else Some (0, cs))"

definition lex_sign :: "jsstring \<Rightarrow> bool \<times> jsstring" where
  "lex_sign cs =
     (case cs of
        [] \<Rightarrow> (False, cs)
      | s # r \<Rightarrow>
          if s = 0x2D then (True, r)
          else if s = 0x2B then (False, r)
          else (False, cs))"

definition lex_exp :: "jsstring \<Rightarrow> (int \<times> jsstring) option" where
  "lex_exp cs =
     (case cs of
        [] \<Rightarrow> Some (0, cs)
      | c # r \<Rightarrow>
          if c = 0x65 \<or> c = 0x45 then
            (case lex_sign r of
               (neg, r1) \<Rightarrow>
                 (let ds = takeWhile is_digit r1 in
                  if ds = [] then None
                  else Some (if neg then - int (digits_value ds) else int (digits_value ds),
                             dropWhile is_digit r1)))
          else Some (0, cs))"

definition lex_number :: "jsstring \<Rightarrow> (rat \<times> jsstring) option" where
  "lex_number cs =
     (case (case cs of [] \<Rightarrow> (False, cs) | c # r \<Rightarrow> if c = 0x2D then (True, r) else (False, cs)) of
        (neg, cs1) \<Rightarrow>
          (case lex_int cs1 of
             None \<Rightarrow> None
           | Some (i, cs2) \<Rightarrow>
               (case lex_frac cs2 of
                  None \<Rightarrow> None
                | Some (f, cs3) \<Rightarrow>
                    (case lex_exp cs3 of
                       None \<Rightarrow> None
                     | Some (e, cs4) \<Rightarrow>
                         Some ((if neg then - 1 else 1) * (of_nat i + f)
                                 * (if e < 0 then 1 / 10 ^ nat (- e) else 10 ^ nat e),
                               cs4)))))"

fun strip_prefix :: "'a list \<Rightarrow> 'a list \<Rightarrow> 'a list option" where
  "strip_prefix [] ys = Some ys"
| "strip_prefix (x # xs) [] = None"
| "strip_prefix (x # xs) (y # ys) = (if x = y then strip_prefix xs ys else None)"

definition tcons :: "token \<Rightarrow> token list option \<Rightarrow> token list option" where
  "tcons t r = (case r of None \<Rightarrow> None | Some ts \<Rightarrow> Some (t # ts))"

lemma scons_Some: "scons c r = Some (s, rest) \<Longrightarrow> \<exists>s'. r = Some (s', rest)"
  by (auto simp: scons_def split: option.splits)

lemma lex_string_shorter: "lex_string cs = Some (s, rest) \<Longrightarrow> length rest < length cs"
proof (induction cs arbitrary: s rest rule: lex_string.induct)
  case 1
  then show ?case by simp
next
  case (2 c cs)
  show ?case
  proof (cases "c = 0x22")
    case True
    with "2.prems" show ?thesis by simp
  next
    case quote: False
    show ?thesis
    proof (cases "c = 0x5C")
      case False
      with quote "2.prems" obtain s' where "lex_string cs = Some (s', rest)"
        by (auto split: if_splits dest: scons_Some)
      with "2.IH"(3) [of s' rest] quote False "2.prems" show ?thesis
        by (auto split: if_splits)
    next
      case True
      with quote "2.prems" obtain e cs1 where cs: "cs = e # cs1"
        by (cases cs) auto
      show ?thesis
      proof (cases "e = 0x75")
        case True
        with quote \<open>c = 0x5C\<close> cs "2.prems"
        obtain h1 h2 h3 h4 cs2 u s' where
          cs1: "cs1 = h1 # h2 # h3 # h4 # cs2" and u: "hex4 h1 h2 h3 h4 = Some u"
          and r: "lex_string cs2 = Some (s', rest)"
          by (auto split: list.splits option.splits dest: scons_Some)
        from "2.IH"(1) [OF quote \<open>c = 0x5C\<close> cs True cs1 refl refl refl u r]
        show ?thesis using cs cs1 by simp
      next
        case False
        with quote \<open>c = 0x5C\<close> cs "2.prems"
        obtain u s' where u: "unescape e = Some u" and r: "lex_string cs1 = Some (s', rest)"
          by (auto split: option.splits dest: scons_Some)
        from "2.IH"(2) [OF quote \<open>c = 0x5C\<close> cs False u r]
        show ?thesis using cs by simp
      qed
    qed
  qed
qed

lemma strip_prefix_length: "strip_prefix p ys = Some r \<Longrightarrow> length r + length p = length ys"
  by (induction p ys rule: strip_prefix.induct) (auto split: if_splits)

lemma lex_int_shorter: "lex_int cs = Some (i, r) \<Longrightarrow> length r < length cs"
  by (cases cs)
     (auto simp: lex_int_def less_Suc_eq_le length_dropWhile_le split: if_splits)

lemma lex_frac_shorter: "lex_frac cs = Some (f, r) \<Longrightarrow> length r \<le> length cs"
  by (cases cs)
     (auto simp: lex_frac_def Let_def le_SucI length_dropWhile_le split: if_splits)

lemma lex_sign_shorter: "lex_sign cs = (neg, r) \<Longrightarrow> length r \<le> length cs"
  by (cases cs) (auto simp: lex_sign_def split: if_splits)

lemma lex_exp_shorter: "lex_exp cs = Some (e, r) \<Longrightarrow> length r \<le> length cs"
proof (cases cs)
  case Nil
  assume "lex_exp cs = Some (e, r)"
  with Nil show ?thesis by (simp add: lex_exp_def)
next
  case (Cons c r0)
  assume a: "lex_exp cs = Some (e, r)"
  show ?thesis
  proof (cases "c = 0x65 \<or> c = 0x45")
    case False
    with a Cons show ?thesis by (auto simp: lex_exp_def)
  next
    case True
    obtain neg r1 where s: "lex_sign r0 = (neg, r1)" by (cases "lex_sign r0")
    with a Cons True have "r = dropWhile is_digit r1"
      by (auto simp: lex_exp_def Let_def split: if_splits)
    moreover have "length (dropWhile is_digit r1) \<le> length r1"
      by (rule length_dropWhile_le)
    moreover from s have "length r1 \<le> length r0" by (rule lex_sign_shorter)
    ultimately show ?thesis using Cons by simp
  qed
qed

lemma lex_number_shorter:
  assumes "lex_number cs = Some (q, rest)"
  shows "length rest < length cs"
proof -
  obtain neg cs1 where n: "(case cs of [] \<Rightarrow> (False, cs) | c # r \<Rightarrow> if c = 0x2D then (True, r) else (False, cs)) = (neg, cs1)"
    by (cases "(case cs of [] \<Rightarrow> (False, cs) | c # r \<Rightarrow> if c = 0x2D then (True, r) else (False, cs))")
  then have l1: "length cs1 \<le> length cs"
    by (cases cs) (auto split: if_splits)
  from assms n obtain i cs2 f cs3 e where
    i: "lex_int cs1 = Some (i, cs2)" and f: "lex_frac cs2 = Some (f, cs3)"
    and e: "lex_exp cs3 = Some (e, rest)"
    by (auto simp: lex_number_def split: option.splits)
  from lex_int_shorter [OF i] lex_frac_shorter [OF f] lex_exp_shorter [OF e] l1
  show ?thesis by simp
qed

text \<open>
  Splitting the text into tokens; white space between tokens is skipped. \<open>None\<close> is a
  syntax error.
\<close>

function lex :: "jsstring \<Rightarrow> token list option" where
  "lex [] = Some []"
| "lex (c # cs) =
     (if is_ws c then lex cs
      else if c = 0x7B then tcons LBrace (lex cs)
      else if c = 0x7D then tcons RBrace (lex cs)
      else if c = 0x5B then tcons LBracket (lex cs)
      else if c = 0x5D then tcons RBracket (lex cs)
      else if c = 0x3A then tcons Colon (lex cs)
      else if c = 0x2C then tcons Comma (lex cs)
      else if c = 0x22 then
        (case lex_string cs of
           None \<Rightarrow> None
         | Some (s, rest) \<Rightarrow> tcons (TString s) (lex rest))
      else if c = 0x2D \<or> is_digit c then
        (case lex_number (c # cs) of
           None \<Rightarrow> None
         | Some (q, rest) \<Rightarrow> tcons (TNumber q) (lex rest))
      else
        (case strip_prefix (js ''true'') (c # cs) of
           Some rest \<Rightarrow> tcons TTrue (lex rest)
         | None \<Rightarrow>
             (case strip_prefix (js ''false'') (c # cs) of
                Some rest \<Rightarrow> tcons TFalse (lex rest)
              | None \<Rightarrow>
                  (case strip_prefix (js ''null'') (c # cs) of
                     Some rest \<Rightarrow> tcons TNull (lex rest)
                   | None \<Rightarrow> None))))"
  by pat_completeness auto
termination
proof (relation "measure length")
  show "wf (measure length)" by simp
qed (auto dest!: lex_string_shorter lex_number_shorter dest: strip_prefix_length
      simp: js_def split: if_splits)

subsection \<open>Values\<close>

definition starts_with :: "token \<Rightarrow> token list \<Rightarrow> bool" where
  "starts_with t ts = (case ts of [] \<Rightarrow> False | x # xs \<Rightarrow> x = t)"

text \<open>
  A value, the elements of an array after its opening bracket, and the members of an
  object after its opening brace, each with the tokens that follow. A property that
  occurs twice keeps its place and takes the later value. The length tests hold for
  every value that \<open>parse_value\<close> returns (\<open>parse_value_shorter\<close> below): a value
  takes at least one token.
\<close>

function parse_value :: "token list \<Rightarrow> (jsval \<times> token list) option"
  and parse_elements :: "jsval list \<Rightarrow> token list \<Rightarrow> (jsval \<times> token list) option"
  and parse_members ::
    "(jsstring \<times> jsval) list \<Rightarrow> token list \<Rightarrow> (jsval \<times> token list) option"
where
  "parse_value [] = None"
| "parse_value (TNull # ts) = Some (JNull, ts)"
| "parse_value (TTrue # ts) = Some (JBool True, ts)"
| "parse_value (TFalse # ts) = Some (JBool False, ts)"
| "parse_value (TString s # ts) = Some (JStr s, ts)"
| "parse_value (TNumber q # ts) = Some (JNum q, ts)"
| "parse_value (LBracket # ts) =
     (if starts_with RBracket ts then Some (JArr [], tl ts) else parse_elements [] ts)"
| "parse_value (LBrace # ts) =
     (if starts_with RBrace ts then Some (JObj [], tl ts) else parse_members [] ts)"
| "parse_value (RBracket # ts) = None"
| "parse_value (RBrace # ts) = None"
| "parse_value (Colon # ts) = None"
| "parse_value (Comma # ts) = None"
| "parse_elements acc ts =
     (case parse_value ts of
        None \<Rightarrow> None
      | Some (v, ts1) \<Rightarrow>
          if length ts1 < length ts then
            (case ts1 of
               Comma # ts2 \<Rightarrow> parse_elements (acc @ [v]) ts2
             | RBracket # ts2 \<Rightarrow> Some (JArr (acc @ [v]), ts2)
             | _ \<Rightarrow> None)
          else None)"
| "parse_members acc ts =
     (case ts of
        TString k # Colon # ts0 \<Rightarrow>
          (case parse_value ts0 of
             None \<Rightarrow> None
           | Some (v, ts1) \<Rightarrow>
               if length ts1 < length ts0 then
                 (case ts1 of
                    Comma # ts2 \<Rightarrow> parse_members (put_prop k v acc) ts2
                  | RBrace # ts2 \<Rightarrow> Some (JObj (put_prop k v acc), ts2)
                  | _ \<Rightarrow> None)
               else None)
      | _ \<Rightarrow> None)"
  by pat_completeness auto
termination
  by (relation "measure (\<lambda>x. case x of
          Inl ts \<Rightarrow> 2 * length ts
        | Inr (Inl (acc, ts)) \<Rightarrow> 2 * length ts + 1
        | Inr (Inr (acc, ts)) \<Rightarrow> 2 * length ts + 1)") auto

lemma parse_value_shorter:
  "parse_value ts = Some (v, r) \<Longrightarrow> length r < length ts"
  "parse_elements acc ts = Some (v, r) \<Longrightarrow> length r < length ts"
  "parse_members ms ts = Some (v, r) \<Longrightarrow> length r < length ts"
proof (induction ts and acc ts and ms ts arbitrary: v r and v r and v r
       rule: parse_value_parse_elements_parse_members.induct)
  case (13 acc ts)
  from "13.prems" obtain x ts1 where pv: "parse_value ts = Some (x, ts1)"
    and l: "length ts1 < length ts"
    by (auto split: option.splits if_splits)
  show ?case
  proof (cases ts1)
    case Nil
    with "13.prems" pv l show ?thesis by simp
  next
    case (Cons t ts2)
    show ?thesis
    proof (cases "t = Comma")
      case True
      with "13.prems" pv l Cons have "parse_elements (acc @ [x]) ts2 = Some (v, r)" by simp
      from "13.IH"(2) [OF pv refl l Cons True this] l Cons show ?thesis by simp
    next
      case False
      with "13.prems" pv l Cons show ?thesis by (cases t) auto
    qed
  qed
next
  case (14 acc ts)
  from "14.prems" obtain k ts0 where ts: "ts = TString k # Colon # ts0"
    by (auto split: list.splits token.splits)
  with "14.prems" obtain x ts1 where pv: "parse_value ts0 = Some (x, ts1)"
    and l: "length ts1 < length ts0"
    by (auto split: option.splits if_splits)
  show ?case
  proof (cases ts1)
    case Nil
    with "14.prems" ts pv l show ?thesis by simp
  next
    case (Cons t ts2)
    show ?thesis
    proof (cases "t = Comma")
      case True
      with "14.prems" ts pv l Cons have "parse_members (put_prop k x acc) ts2 = Some (v, r)"
        by simp
      from "14.IH"(2) [OF ts refl refl refl pv refl l Cons True this] l Cons ts
      show ?thesis by simp
    next
      case False
      with "14.prems" ts pv l Cons show ?thesis by (cases t) auto
    qed
  qed
qed (auto simp: starts_with_def split: if_splits list.splits)

text \<open>
  \<^verbatim>\<open>JSON.parse(text)\<close>: the value of a text that is exactly one JSON value, \<open>None\<close>
  where \<^verbatim>\<open>JSON.parse\<close> throws a SyntaxError.
\<close>

definition JSON_parse :: "jsstring \<Rightarrow> jsval option" where
  "JSON_parse text =
     (case lex text of
        None \<Rightarrow> None
      | Some ts \<Rightarrow>
          (case parse_value ts of
             Some (v, []) \<Rightarrow> Some v
           | _ \<Rightarrow> None))"

section \<open>The session store (src/contexts/AuthContext.tsx)\<close>

datatype role = investor | admin

definition role_string :: "role \<Rightarrow> jsstring" where
  "role_string r = (case r of investor \<Rightarrow> js ''investor'' | admin \<Rightarrow> js ''admin'')"

record User =
  id_User :: jsstring
  email :: jsstring
  name :: jsstring
  role :: role

text \<open>
  A \<open>User\<close> at run time is an object with the four properties in the order of the
  object literal of \<open>login\<close>, and \<^verbatim>\<open>JSON.stringify\<close> writes them in that order.
\<close>

definition User_props :: "User \<Rightarrow> (jsstring \<times> jsstring) list" where
  "User_props u =
     [(js ''id'', id_User u), (js ''email'', email u), (js ''name'', name u),
      (js ''role'', role_string (role u))]"

definition User_object :: "User \<Rightarrow> jsval" where
  "User_object u = JObj (map (\<lambda>(k, v). (k, JStr v)) (User_props u))"

definition JSON_stringify_User :: "User \<Rightarrow> jsstring" where
  "JSON_stringify_User u = SerializeJSONObject (User_props u)"

text \<open>
  What the code can throw: the \<^verbatim>\<open>Error\<close> of \<open>useAuth\<close> with its message, and the
  exception of \<^verbatim>\<open>localStorage.setItem\<close> when the browser refuses a write.
\<close>

datatype fault = Error jsstring | QuotaExceededError

text \<open>
  \<^verbatim>\<open>localStorage\<close> maps keys to strings; \<open>getItem\<close> is \<open>None\<close> where the browser
  returns \<^verbatim>\<open>null\<close>. Whether a write is accepted is the browser's decision (its
  quota, or storage switched off); it is a parameter \<open>accepts\<close> of the model, given
  the storage, the key and the value. \<open>setItem\<close> throws where the browser refuses and
  leaves the storage as it was.
\<close>

type_synonym Storage = "jsstring \<rightharpoonup> jsstring"

type_synonym write_policy = "Storage \<Rightarrow> jsstring \<Rightarrow> jsstring \<Rightarrow> bool"

definition getItem :: "Storage \<Rightarrow> jsstring \<Rightarrow> jsstring option" where
  "getItem ls k = ls k"

definition setItem :: "write_policy \<Rightarrow> Storage \<Rightarrow> jsstring \<Rightarrow> jsstring \<Rightarrow> fault + Storage" where
  "setItem accepts ls k v = (if accepts ls k v then Inr (ls(k \<mapsto> v)) else Inl QuotaExceededError)"

text \<open>
  A browser that refuses an entry whose key and value together are longer than \<open>q\<close>
  code units, as a browser with a quota of \<open>q\<close> code units for the origin does on an
  empty storage.
\<close>

definition quota_policy :: "nat \<Rightarrow> write_policy" where
  "quota_policy q ls k v = (length k + length v \<le> q)"

definition removeItem :: "Storage \<Rightarrow> jsstring \<Rightarrow> Storage" where
  "removeItem ls k = ls(k := None)"

text \<open>
  The state the provider works on: its React state \<open>user\<close> (declared
  \<^verbatim>\<open>User | null\<close>, at run time whatever value was last set) and the browser's
  storage.
\<close>

record session =
  user :: jsval
  localStorage :: Storage

definition setUser :: "jsval \<Rightarrow> session \<Rightarrow> session" where
  "setUser v st = st\<lparr>user := v\<rparr>"

subsection \<open>login\<close>

datatype 'a promise = Pending | Fulfilled 'a | Rejected

definition resolve :: "'a \<Rightarrow> 'a promise \<Rightarrow> 'a promise" where
  "resolve v p = (case p of Pending \<Rightarrow> Fulfilled v | Fulfilled w \<Rightarrow> Fulfilled w | Rejected \<Rightarrow> Rejected)"

text \<open>
  The callback handed to \<^verbatim>\<open>setTimeout\<close>, run on the session and the promise as
  they are when the timer fires. \<open>rnd\<close> is the string that
  \<^verbatim>\<open>Math.random().toString(36).substr(2, 9)\<close> yields in that run. The index 0
  is in range: \<open>split_js\<close> never returns the empty list (\<open>split_js_nonempty\<close>).
  The callback has no \<^verbatim>\<open>try\<close>: where \<open>setItem\<close> throws, the callback ends there,
  after \<open>setUser\<close> and before \<^verbatim>\<open>resolve(true)\<close>, so the user is set, nothing is
  stored and the promise is left as it was. The exception itself goes to the browser's
  handler of uncaught errors and is not part of the result.
\<close>

definition login_timeout ::
  "write_policy \<Rightarrow> jsstring \<Rightarrow> jsstring \<Rightarrow> role \<Rightarrow> jsstring \<Rightarrow>
     session \<times> bool promise \<Rightarrow> session \<times> bool promise" where
  "login_timeout accepts em password rl rnd sp =
     (case sp of
        (st, p) \<Rightarrow>
          if 4 \<le> length password then
            (let newUser = \<lparr>id_User = rnd, email = em, name = split_js 0x40 em ! 0, role = rl\<rparr>;
                 st1 = setUser (User_object newUser) st
             in (case setItem accepts (localStorage st1) (js ''user'') (JSON_stringify_User newUser) of
                   Inl thrown \<Rightarrow> (st1, p)
                 | Inr stored \<Rightarrow> (st1\<lparr>localStorage := stored\<rparr>, resolve True p)))
          else (st, resolve False p))"

text \<open>
  What a call of \<open>login\<close> does at once, in a browser with the write policy
  \<open>accepts\<close>: it returns a pending promise and sets one timer of 500 ms. The
  timer's handle is dropped, so the only thing that can happen to the timer is that it
  fires (\<open>fire\<close>).
\<close>

record login_call =
  promise :: "bool promise"
  delay :: nat
  callback :: "jsstring \<Rightarrow> session \<times> bool promise \<Rightarrow> session \<times> bool promise"

definition login :: "write_policy \<Rightarrow> jsstring \<Rightarrow> jsstring \<Rightarrow> role \<Rightarrow> login_call" where
  "login accepts em password rl =
     \<lparr>promise = Pending, delay = 500, callback = login_timeout accepts em password rl\<rparr>"

definition fire :: "login_call \<Rightarrow> jsstring \<Rightarrow> session \<Rightarrow> session \<times> bool promise" where
  "fire call rnd st = callback call rnd (st, promise call)"

subsection \<open>logout\<close>

definition logout :: "session \<Rightarrow> session" where
  "logout st = (setUser JNull st)\<lparr>localStorage := removeItem (localStorage st) (js ''user'')\<rparr>"

subsection \<open>Restoring the session when the provider mounts\<close>

text \<open>
  The effect of \<open>AuthProvider\<close>. \<^verbatim>\<open>if (savedUser)\<close> skips a missing entry and the
  empty string; a SyntaxError of \<^verbatim>\<open>JSON.parse\<close> is caught, logged to the console
  (not part of the state) and the entry removed.
\<close>

definition restore :: "session \<Rightarrow> session" where
  "restore st =
     (case getItem (localStorage st) (js ''user'') of
        None \<Rightarrow> st
      | Some savedUser \<Rightarrow>
          if savedUser = [] then st
          else
            (case JSON_parse savedUser of
               Some v \<Rightarrow> setUser v st
             | None \<Rightarrow> st\<lparr>localStorage := removeItem (localStorage st) (js ''user'')\<rparr>))"

text \<open>A provider mounts with \<^verbatim>\<open>useState(null)\<close> and then runs the effect once.\<close>

definition AuthProvider_mount :: "Storage \<Rightarrow> session" where
  "AuthProvider_mount ls = restore \<lparr>user = JNull, localStorage = ls\<rparr>"

subsection \<open>The context value and useAuth\<close>

text \<open>
  The value a provider hands down: the fields \<^verbatim>\<open>user\<close> and
  \<^verbatim>\<open>isAuthenticated\<close>; its \<^verbatim>\<open>login\<close> and \<^verbatim>\<open>logout\<close> are the functions above.
\<close>

record AuthContextType =
  ctx_user :: jsval
  isAuthenticated :: bool

definition AuthProvider_value :: "session \<Rightarrow> AuthContextType" where
  "AuthProvider_value st = \<lparr>ctx_user = user st, isAuthenticated = truthy (user st)\<rparr>"

text \<open>
  \<^verbatim>\<open>useContext(AuthContext)\<close> in a component whose enclosing providers are
  \<open>providers\<close>, the nearest first: the value of the nearest provider, and the default
  \<^verbatim>\<open>undefined\<close> (\<open>None\<close>) of \<^verbatim>\<open>createContext\<close> where there is none.
\<close>

definition useContext :: "session list \<Rightarrow> AuthContextType option" where
  "useContext providers =
     (case providers of [] \<Rightarrow> None | st # outer \<Rightarrow> Some (AuthProvider_value st))"

definition useAuth :: "session list \<Rightarrow> fault + AuthContextType" where
  "useAuth providers =
     (case useContext providers of
        None \<Rightarrow> Inl (Error (js ''useAuth debe ser usado dentro de un AuthProvider''))
      | Some context \<Rightarrow> Inr context)"

section \<open>The dashboard page (src/pages/Dashboard.tsx)\<close>

text \<open>
  The numbers of a KPI record are doubles; their type is left open as \<open>'n\<close>. What the
  page imports from \<^verbatim>\<open>@/lib/dummyData\<close> (not part of the sources at hand) and the
  arithmetic on doubles it uses are parameters.
\<close>

record 'n KPIData =
  revPAR :: 'n
  profitMargin :: 'n
  profitPercentage :: 'n
  avgOccupancyRate :: 'n
  budgetOccupancyRate :: 'n
  totalRevenue :: 'n
  revenueAchievement :: 'n
  occupancyRate :: 'n
  adr :: 'n
  budgetADR :: 'n
  adrGrowth :: 'n
  forecastRevPAR :: 'n
  budgetRevenue :: 'n
  forecastRevenue :: 'n
  avgRatePerPerson :: 'n
  costs :: 'n
  fara :: 'n
  faraPercentage :: 'n

record 'n dummyData =
  formatCurrency :: "'n \<Rightarrow> jsstring"
  formatPercentage :: "'n \<Rightarrow> jsstring"
  num_greater :: "'n \<Rightarrow> 'n \<Rightarrow> bool"
  num_minus :: "'n \<Rightarrow> 'n \<Rightarrow> 'n"
  Math_abs :: "'n \<Rightarrow> 'n"
  num_literal :: "rat \<Rightarrow> 'n"

datatype trend = Positive | Negative | Neutral

datatype dataset =
    salesTrendData | occupancyTrendData | avgRateTrendData | revPARTrendData
  | propertyRatingsData | propertyDistributionData

datatype value_format = by_formatCurrency | by_percent_suffix | by_toFixed_2

text \<open>
  The elements the page renders, without their styling classes. \<open>KPICard\<close>: title,
  value, subtitle, trend, trendValue. \<open>LineChart\<close>: title, data, dataKeys (key, label,
  color), formatValue. \<open>PieChart\<close>: title, data, dataKey, nameKey, showPercentage.
  \<open>BarChart\<close>: title, data, dataKey, nameKey, barColor, formatValue.
\<close>

datatype element =
    Div "element list"
  | H1 jsstring
  | H2 jsstring
  | P jsstring
  | KPICard jsstring jsstring "jsstring option" "trend option" "jsstring option"
  | LineChart jsstring dataset "(jsstring \<times> jsstring \<times> jsstring) list" value_format
  | PieChart jsstring dataset jsstring jsstring bool
  | BarChart jsstring dataset jsstring jsstring jsstring value_format

fun kpi_cards :: "element \<Rightarrow> element list" where
  "kpi_cards (Div es) = concat (map kpi_cards es)"
| "kpi_cards (KPICard t v s tr tv) = [KPICard t v s tr tv]"
| "kpi_cards e = []"

fun chart_titles :: "element \<Rightarrow> jsstring list" where
  "chart_titles (Div es) = concat (map chart_titles es)"
| "chart_titles (LineChart t d ks f) = [t]"
| "chart_titles (PieChart t d k n sp) = [t]"
| "chart_titles (BarChart t d k n c f) = [t]"
| "chart_titles e = []"

fun card_title :: "element \<Rightarrow> jsstring" where
  "card_title (KPICard t v s tr tv) = t"
| "card_title e = []"

fun headings :: "element \<Rightarrow> jsstring list" where
  "headings (Div es) = concat (map headings es)"
| "headings (H1 t) = [t]"
| "headings e = []"

definition chart_color :: "string \<Rightarrow> jsstring" where
  "chart_color n = js ''hsl(var(--chart-'' @ js n @ js ''))''"

text \<open>The first \<^verbatim>\<open>return\<close> of the component: the view for investors.\<close>

definition investor_view :: "'n dummyData \<Rightarrow> 'n KPIData \<Rightarrow> element" where
  "investor_view lib kpiData =
     Div [
       Div [
         H1 (js ''Dashboard de Inversionista''),
         P (js ''Vista general de rendimiento y m'' @ [0xE9] @ js ''tricas clave'')],
       Div [
         KPICard (js ''RevPAR'')
           (formatCurrency lib (revPAR kpiData))
           (Some (js ''Ingreso por habitaci'' @ [0xF3] @ js ''n disponible''))
           (Some Positive)
           (Some (formatPercentage lib (num_literal lib (199 / 10)))),
         KPICard (js ''Ganancia Neta'')
           (formatCurrency lib (profitMargin kpiData))
           (Some (formatPercentage lib (profitPercentage kpiData) @ js '' de margen''))
           (Some Positive)
           (Some (formatPercentage lib (num_literal lib (455 / 10)))),
         KPICard (js ''Ocupaci'' @ [0xF3] @ js ''n Promedio'')
           (formatPercentage lib (avgOccupancyRate kpiData))
           (Some (js ''Tasa promedio del periodo''))
           (Some (if num_greater lib (avgOccupancyRate kpiData) (budgetOccupancyRate kpiData)
                  then Positive else Negative))
           (Some (formatPercentage lib
                    (Math_abs lib
                       (num_minus lib (avgOccupancyRate kpiData) (budgetOccupancyRate kpiData))))),
         KPICard (js ''Ventas Totales'')
           (formatCurrency lib (totalRevenue kpiData))
           (Some (formatPercentage lib (revenueAchievement kpiData) @ js '' vs presupuesto''))
           (Some Positive)
           (Some (formatPercentage lib (revenueAchievement kpiData)))],
       Div [
         LineChart (js ''Tendencia de RevPAR'') revPARTrendData
           [(js ''value'', js ''Actual'', chart_color ''1''),
            (js ''forecast'', js ''Forecast'', chart_color ''4'')]
           by_formatCurrency,
         PieChart (js ''Distribuci'' @ [0xF3] @ js ''n por Propiedad'') propertyDistributionData
           (js ''value'') (js ''name'') True]]"

text \<open>The second \<^verbatim>\<open>return\<close>: the view for administrators.\<close>

definition admin_view :: "'n dummyData \<Rightarrow> 'n KPIData \<Rightarrow> element" where
  "admin_view lib kpiData =
     Div [
       Div [
         H1 (js ''Dashboard Administrativo''),
         P (js ''Informaci'' @ [0xF3] @ js ''n detallada de operaciones y rendimiento'')],
       Div [
         KPICard (js ''% Ocupaci'' @ [0xF3] @ js ''n'')
           (formatPercentage lib (occupancyRate kpiData))
           (Some (js ''Tasa promedio de ocupaci'' @ [0xF3] @ js ''n''))
           (Some Positive)
           (Some (formatPercentage lib (avgOccupancyRate kpiData))),
         KPICard (js ''Ventas'')
           (formatCurrency lib (totalRevenue kpiData))
           (Some (js ''Revenue total''))
           (Some Positive)
           (Some (formatPercentage lib (revenueAchievement kpiData))),
         KPICard (js ''ADR'')
           (formatCurrency lib (adr kpiData))
           (Some (js ''Presupuesto''))
           (Some (if num_greater lib (adr kpiData) (budgetADR kpiData)
                  then Positive else Negative))
           (Some (formatPercentage lib (adrGrowth kpiData))),
         KPICard (js ''RevPAR'')
           (formatCurrency lib (revPAR kpiData))
           (Some (js ''Forecast''))
           (Some Positive)
           (Some (formatCurrency lib (forecastRevPAR kpiData)))],
       Div [
         KPICard (js ''Presupuesto a hoy'')
           (formatCurrency lib (budgetRevenue kpiData))
           (Some (js ''Alojamiento''))
           (Some Positive)
           (Some (formatPercentage lib (revenueAchievement kpiData))),
         KPICard (js ''Forecast de ventas'')
           (formatCurrency lib (forecastRevenue kpiData))
           (Some (js ''Alojamiento''))
           None None,
         KPICard (js ''Tarifa promedio (Per)'')
           (formatCurrency lib (avgRatePerPerson kpiData))
           (Some (js ''Tarifa promedio por persona''))
           None None],
       Div [
         KPICard (js ''Gastos y costos'')
           (formatCurrency lib (costs kpiData))
           None None None,
         KPICard (js ''Utilidad/Perdida'')
           (formatCurrency lib (profitMargin kpiData))
           (Some (js ''GOP''))
           (Some Positive)
           (Some (formatPercentage lib (profitPercentage kpiData))),
         KPICard (js ''FARA'')
           (formatCurrency lib (fara kpiData))
           None
           (Some Neutral)
           (Some (formatPercentage lib (faraPercentage kpiData)))],
       Div [
         H2 (js ''Tendencias''),
         Div [
           LineChart (js ''Total ventas'') salesTrendData
             [(js ''value'', js ''Leyenda'', chart_color ''5''),
              (js ''forecast'', js ''Presupuesto'', chart_color ''3''),
              (js ''historical'', js ''AGOS'', chart_color ''1'')]
             by_formatCurrency,
           LineChart (js ''Evoluci'' @ [0xF3] @ js ''n tasa de ocupaci'' @ [0xF3] @ js ''n'')
             occupancyTrendData
             [(js ''forecast'', js ''Forecast'', chart_color ''1''),
              (js ''value'', js ''ADR'', chart_color ''2''),
              (js ''budget'', js ''Presupuestado'', chart_color ''5'')]
             by_percent_suffix,
           LineChart (js ''Evoluci'' @ [0xF3] @ js ''n tarifa promedio'') avgRateTrendData
             [(js ''forecast'', js ''Forecast'', chart_color ''1''),
              (js ''value'', js ''ADR'', chart_color ''2''),
              (js ''budget'', js ''ADR presupuestado'', chart_color ''5'')]
             by_formatCurrency,
           LineChart (js ''Evoluci'' @ [0xF3] @ js ''n RevPAR'') revPARTrendData
             [(js ''forecast'', js ''Forecast'', chart_color ''1''),
              (js ''value'', js ''Actual'', chart_color ''2'')]
             by_formatCurrency],
         BarChart (js ''Propiedad - Comparaci'' @ [0xF3] @ js ''n de Ratings'') propertyRatingsData
           (js ''rating'') (js ''property'') (chart_color ''1'') by_toFixed_2]]"

text \<open>
  \<^verbatim>\<open>user?.role\<close>: \<^verbatim>\<open>undefined\<close> (\<open>None\<close>) for \<^verbatim>\<open>null\<close>, and the property
  \<^verbatim>\<open>role\<close> otherwise, which only an object can have among the values of \<open>jsval\<close>.
\<close>

definition optional_role :: "jsval \<Rightarrow> jsval option" where
  "optional_role u = (case u of JObj ps \<Rightarrow> get_prop (js ''role'') ps | _ \<Rightarrow> None)"

text \<open>
  The component in a tree with the given enclosing providers, for the record
  \<open>kpiData\<close> that \<^verbatim>\<open>getKPIData(property)\<close> returned.
\<close>

definition Dashboard :: "'n dummyData \<Rightarrow> session list \<Rightarrow> 'n KPIData \<Rightarrow> fault + element" where
  "Dashboard lib providers kpiData =
     (case useAuth providers of
        Inl e \<Rightarrow> Inl e
      | Inr context \<Rightarrow>
          if optional_role (ctx_user context) = Some (JStr (js ''investor''))
          then Inr (investor_view lib kpiData)
          else Inr (admin_view lib kpiData))"

section \<open>The invariant of the specification, and sample data\<close>

text \<open>
  What the specification asks of an identity that is present: an email that is a
  non-empty string and a role that is one of the two strings of the enum.
\<close>

definition identity_ok :: "jsval \<Rightarrow> bool" where
  "identity_ok v =
     (case v of
        JObj ps \<Rightarrow>
          (case get_prop (js ''email'') ps of
             Some (JStr e) \<Rightarrow> e \<noteq> []
           | _ \<Rightarrow> False) \<and>
          (get_prop (js ''role'') ps = Some (JStr (js ''investor'')) \<or>
           get_prop (js ''role'') ps = Some (JStr (js ''admin'')))
      | _ \<Rightarrow> False)"

definition session_invariant :: "session \<Rightarrow> bool" where
  "session_invariant st = (user st \<noteq> JNull \<longrightarrow> identity_ok (user st))"

text \<open>
  A persisted entry from which \<open>restore\<close> installs nothing, \<^verbatim>\<open>null\<close>, or an identity
  as the specification wants it.
\<close>

definition entry_ok :: "jsstring option \<Rightarrow> bool" where
  "entry_ok e =
     (case e of
        None \<Rightarrow> True
      | Some s \<Rightarrow>
          s = [] \<or>
          (case JSON_parse s of
             None \<Rightarrow> True
           | Some v \<Rightarrow> v = JNull \<or> identity_ok v))"

text \<open>
  The sessions the application reaches when the entry found by the first provider is of
  that kind and \<open>login\<close> is called with a non-empty email, as the login form calls
  it: through logins, logouts and reloads of the page, whatever writes the browser
  accepts.
\<close>

inductive reachable :: "session \<Rightarrow> bool" where
  start: "entry_ok (getItem ls (js ''user'')) \<Longrightarrow> reachable (AuthProvider_mount ls)"
| after_login:
    "reachable st \<Longrightarrow> em \<noteq> [] \<Longrightarrow>
       reachable (fst (fire (login accepts em password rl) rnd st))"
| after_logout: "reachable st \<Longrightarrow> reachable (logout st)"
| reload: "reachable st \<Longrightarrow> reachable (AuthProvider_mount (localStorage st))"

text \<open>A library and a KPI record to run the dashboard on.\<close>

definition sample_lib :: "unit dummyData" where
  "sample_lib =
     \<lparr>formatCurrency = (\<lambda>x. js ''$0''), formatPercentage = (\<lambda>x. js ''0%''),
      num_greater = (\<lambda>x y. False), num_minus = (\<lambda>x y. ()), Math_abs = (\<lambda>x. ()),
      num_literal = (\<lambda>q. ())\<rparr>"

definition sample_kpi :: "unit KPIData" where
  "sample_kpi =
     \<lparr>revPAR = (), profitMargin = (), profitPercentage = (), avgOccupancyRate = (),
      budgetOccupancyRate = (), totalRevenue = (), revenueAchievement = (),
      occupancyRate = (), adr = (), budgetADR = (), adrGrowth = (), forecastRevPAR = (),
      budgetRevenue = (), forecastRevenue = (), avgRatePerPerson = (), costs = (),
      fara = (), faraPercentage = ()\<rparr>"

section \<open>Auxiliary facts\<close>

lemma split_js_nonempty: "split_js sep s \<noteq> []"
  by (induction s) (auto split: list.splits)

lemma split_js_first: "split_js sep s ! 0 = takeWhile (\<lambda>c. c \<noteq> sep) s"
  by (induction s) (auto split: list.splits simp: split_js_nonempty)

lemma unat_small: "n < 65536 \<Longrightarrow> unat (of_nat n :: code_unit) = n"
  by (simp add: unat_of_nat)

lemma unat_digit: "k < 16 \<Longrightarrow> unat (48 + of_nat k :: code_unit) = 48 + k"
  using unat_small [of "48 + k"] by simp

lemma unat_letter: "k < 16 \<Longrightarrow> unat (87 + of_nat k :: code_unit) = 87 + k"
  using unat_small [of "87 + k"] by simp

lemma hex_value_hex_digit: "k < 16 \<Longrightarrow> hex_value (hex_digit k) = Some k"
  unfolding hex_value_def hex_digit_def Let_def
  by (cases "k < 10") (simp_all add: unat_digit unat_letter)

lemma nibbles:
  "((n div 4096 * 16 + n div 256 mod 16) * 16 + n div 16 mod 16) * 16 + n mod 16 = (n::nat)"
proof -
  have a: "n div 256 = n div 16 div 16" and b: "n div 4096 = n div 16 div 16 div 16"
    by (simp_all add: div_mult2_eq [symmetric])
  have "n div 16 div 16 div 16 * 16 + n div 16 div 16 mod 16 = n div 16 div 16"
    by (rule div_mult_mod_eq)
  moreover have "n div 16 div 16 * 16 + n div 16 mod 16 = n div 16"
    by (rule div_mult_mod_eq)
  moreover have "n div 16 * 16 + n mod 16 = n"
    by (rule div_mult_mod_eq)
  ultimately show ?thesis unfolding a b by simp
qed

lemma hex4_UnicodeEscape:
  "hex4 (hex_digit (unat c div 4096)) (hex_digit (unat c div 256 mod 16))
        (hex_digit (unat c div 16 mod 16)) (hex_digit (unat c mod 16)) = Some (c :: code_unit)"
proof -
  have "unat c < 65536" using unsigned_less [of c] by simp
  then have a: "unat c div 4096 < 16" by simp
  have "hex4 (hex_digit (unat c div 4096)) (hex_digit (unat c div 256 mod 16))
        (hex_digit (unat c div 16 mod 16)) (hex_digit (unat c mod 16))
      = Some (of_nat (((unat c div 4096 * 16 + unat c div 256 mod 16) * 16
                        + unat c div 16 mod 16) * 16 + unat c mod 16))"
    unfolding hex4_def by (simp add: hex_value_hex_digit a del: of_nat_add of_nat_mult)
  then show ?thesis by (simp only: nibbles of_nat_unat ucast_id)
qed

lemma lex_string_UnicodeEscape:
  "lex_string (UnicodeEscape c @ rest) = scons c (lex_string rest)"
  by (simp add: UnicodeEscape_def Let_def hex4_UnicodeEscape)

text \<open>Reading back a quoted string gives the string, whatever its code units.\<close>

lemma lex_string_quote_chars:
  "lex_string (quote_chars s @ 0x22 # rest) = Some (s, rest)"
proof (induction s rule: quote_chars.induct)
  case 1
  show ?case by simp
next
  case (2 c cs)
  show ?case
  proof (cases "c = 0x08 \<or> c = 0x09 \<or> c = 0x0A \<or> c = 0x0C \<or> c = 0x0D \<or> c = 0x22 \<or> c = 0x5C")
    case True
    with "2.IH"(1-7) show ?thesis
      by (auto simp: unescape_def scons_def)
  next
    case named: False
    show ?thesis
    proof (cases "c < 0x20")
      case True
      with named "2.IH"(8) show ?thesis
        by (simp add: lex_string_UnicodeEscape scons_def)
    next
      case ctl: False
      show ?thesis
      proof (cases "is_leading_surrogate c")
        case lead: True
        show ?thesis
        proof (cases cs)
          case Nil
          with named ctl lead show ?thesis
            by (simp add: lex_string_UnicodeEscape scons_def)
        next
          case (Cons d ds)
          show ?thesis
          proof (cases "is_trailing_surrogate d")
            case True
            then have d: "d \<noteq> 0x22" "d \<noteq> 0x5C" "\<not> d < 0x20"
              unfolding is_trailing_surrogate_def by unat_arith+
            from "2.IH"(9) [OF _ _ _ _ _ _ _ ctl lead Cons True] named
            have "lex_string (quote_chars ds @ 0x22 # rest) = Some (ds, rest)" by simp
            with named ctl lead Cons True d show ?thesis
              by (simp add: scons_def)
          next
            case False
            from "2.IH"(10) [OF _ _ _ _ _ _ _ ctl lead Cons False] named
            have "lex_string (quote_chars cs @ 0x22 # rest) = Some (cs, rest)" by simp
            with named ctl lead Cons False show ?thesis
              by (simp add: lex_string_UnicodeEscape scons_def)
          qed
        qed
      next
        case nolead: False
        show ?thesis
        proof (cases "is_trailing_surrogate c")
          case True
          from "2.IH"(11) [OF _ _ _ _ _ _ _ ctl nolead True] named
          have "lex_string (quote_chars cs @ 0x22 # rest) = Some (cs, rest)" by simp
          with named ctl nolead True show ?thesis
            by (simp add: lex_string_UnicodeEscape scons_def)
        next
          case False
          from "2.IH"(12) [OF _ _ _ _ _ _ _ ctl nolead False] named
          have "lex_string (quote_chars cs @ 0x22 # rest) = Some (cs, rest)" by simp
          with named ctl nolead False show ?thesis
            by (simp add: scons_def)
        qed
      qed
    qed
  qed
qed

lemma lex_QuoteJSONString:
  "lex (QuoteJSONString s @ rest) = tcons (TString s) (lex rest)"
  by (simp add: QuoteJSONString_def is_ws_def lex_string_quote_chars)

lemma lex_JSON_stringify_User:
  "lex (JSON_stringify_User u) =
     Some [LBrace, TString (js ''id''), Colon, TString (id_User u), Comma,
           TString (js ''email''), Colon, TString (email u), Comma,
           TString (js ''name''), Colon, TString (name u), Comma,
           TString (js ''role''), Colon, TString (role_string (role u)), RBrace]"
  by (simp add: JSON_stringify_User_def SerializeJSONObject_def User_props_def is_ws_def
        lex_QuoteJSONString tcons_def)

lemma JSON_parse_stringify_User: "JSON_parse (JSON_stringify_User u) = Some (User_object u)"
  by (simp add: JSON_parse_def lex_JSON_stringify_User User_object_def User_props_def js_def
        starts_with_def)

lemma JSON_stringify_User_nonempty: "JSON_stringify_User u \<noteq> []"
  by (simp add: JSON_stringify_User_def SerializeJSONObject_def)

lemma restore_stringify_User:
  "restore \<lparr>user = v, localStorage = ls(js ''user'' \<mapsto> JSON_stringify_User u)\<rparr> =
     \<lparr>user = User_object u, localStorage = ls(js ''user'' \<mapsto> JSON_stringify_User u)\<rparr>"
  by (simp add: restore_def getItem_def setUser_def JSON_parse_stringify_User
        JSON_stringify_User_nonempty)

lemma optional_role_User_object:
  "optional_role (User_object u) = Some (JStr (role_string (role u)))"
  by (simp add: optional_role_def User_object_def User_props_def get_prop_def js_def)

lemma role_string_investor: "role_string r = js ''investor'' \<longleftrightarrow> r = investor"
  by (cases r) (simp_all add: role_string_def js_def)

lemma Dashboard_inside:
  "Dashboard lib (st # outer) kpiData =
     (if optional_role (user st) = Some (JStr (js ''investor''))
      then Inr (investor_view lib kpiData) else Inr (admin_view lib kpiData))"
  by (simp add: Dashboard_def useAuth_def useContext_def AuthProvider_value_def)

lemma identity_ok_User_object: "identity_ok (User_object u) \<longleftrightarrow> email u \<noteq> []"
  by (cases "role u")
     (simp_all add: identity_ok_def User_object_def User_props_def get_prop_def
        role_string_def js_def)

lemma User_object_not_null: "User_object u \<noteq> JNull"
  by (simp add: User_object_def)

lemma fire_login:
  "fire (login accepts em password rl) rnd st =
     login_timeout accepts em password rl rnd (st, Pending)"
  by (simp add: fire_def login_def)

lemma login_accepted:
  assumes "4 \<le> length password"
    and "accepts (localStorage st) (js ''user'')
           (JSON_stringify_User
              \<lparr>id_User = rnd, email = em, name = takeWhile (\<lambda>c. c \<noteq> 0x40) em, role = rl\<rparr>)"
  shows "fire (login accepts em password rl) rnd st =
           (\<lparr>user = User_object
                     \<lparr>id_User = rnd, email = em,
                      name = takeWhile (\<lambda>c. c \<noteq> 0x40) em, role = rl\<rparr>,
             localStorage = (localStorage st)
               (js ''user'' \<mapsto> JSON_stringify_User
                     \<lparr>id_User = rnd, email = em,
                      name = takeWhile (\<lambda>c. c \<noteq> 0x40) em, role = rl\<rparr>)\<rparr>,
            Fulfilled True)"
  using assms
  by (simp add: fire_login login_timeout_def setUser_def setItem_def resolve_def
        split_js_first Let_def)

lemma login_refused:
  assumes "4 \<le> length password"
    and "\<not> accepts (localStorage st) (js ''user'')
           (JSON_stringify_User
              \<lparr>id_User = rnd, email = em, name = takeWhile (\<lambda>c. c \<noteq> 0x40) em, role = rl\<rparr>)"
  shows "fire (login accepts em password rl) rnd st =
           (\<lparr>user = User_object
                     \<lparr>id_User = rnd, email = em,
                      name = takeWhile (\<lambda>c. c \<noteq> 0x40) em, role = rl\<rparr>,
             localStorage = localStorage st\<rparr>,
            Pending)"
  using assms
  by (simp add: fire_login login_timeout_def setUser_def setItem_def split_js_first Let_def)

lemma login_rejected_password:
  "length password < 4 \<Longrightarrow> fire (login accepts em password rl) rnd st = (st, Fulfilled False)"
  by (simp add: fire_login login_timeout_def resolve_def)

lemma login_fulfilled_iff:
  "snd (fire (login accepts em password rl) rnd st) = Fulfilled True \<longleftrightarrow>
     4 \<le> length password \<and>
     accepts (localStorage st) (js ''user'')
       (JSON_stringify_User
          \<lparr>id_User = rnd, email = em, name = takeWhile (\<lambda>c. c \<noteq> 0x40) em, role = rl\<rparr>)"
proof (cases "4 \<le> length password")
  case False
  then show ?thesis by (simp add: login_rejected_password)
next
  case True
  then show ?thesis
    by (cases "accepts (localStorage st) (js ''user'')
         (JSON_stringify_User
            \<lparr>id_User = rnd, email = em, name = takeWhile (\<lambda>c. c \<noteq> 0x40) em, role = rl\<rparr>)")
       (simp_all add: login_accepted login_refused)
qed

lemma login_sets_user:
  "4 \<le> length password \<Longrightarrow>
     user (fst (fire (login accepts em password rl) rnd st)) =
       User_object
         \<lparr>id_User = rnd, email = em, name = takeWhile (\<lambda>c. c \<noteq> 0x40) em, role = rl\<rparr>"
  by (cases "accepts (localStorage st) (js ''user'')
         (JSON_stringify_User
            \<lparr>id_User = rnd, email = em, name = takeWhile (\<lambda>c. c \<noteq> 0x40) em, role = rl\<rparr>)")
     (simp_all add: login_accepted login_refused)

lemma length_UnicodeEscape: "length (UnicodeEscape c) = 6"
  by (simp add: UnicodeEscape_def Let_def)

lemma length_quote_chars: "length s \<le> length (quote_chars s)"
proof (induction s rule: quote_chars.induct)
  case 1
  show ?case by simp
next
  case (2 c cs)
  show ?case
  proof (cases "c = 0x08 \<or> c = 0x09 \<or> c = 0x0A \<or> c = 0x0C \<or> c = 0x0D \<or> c = 0x22 \<or> c = 0x5C")
    case True
    with "2.IH"(1-7) show ?thesis by auto
  next
    case named: False
    show ?thesis
    proof (cases "c < 0x20")
      case True
      with named "2.IH"(8) show ?thesis by (simp add: length_UnicodeEscape)
    next
      case ctl: False
      show ?thesis
      proof (cases "is_leading_surrogate c")
        case lead: True
        show ?thesis
        proof (cases cs)
          case Nil
          with named ctl lead show ?thesis by (simp add: length_UnicodeEscape)
        next
          case (Cons d ds)
          show ?thesis
          proof (cases "is_trailing_surrogate d")
            case True
            from "2.IH"(9) [OF _ _ _ _ _ _ _ ctl lead Cons True] named
            have "length ds \<le> length (quote_chars ds)" by simp
            with named ctl lead Cons True show ?thesis by simp
          next
            case False
            from "2.IH"(10) [OF _ _ _ _ _ _ _ ctl lead Cons False] named
            have "length cs \<le> length (quote_chars cs)" by simp
            with named ctl lead Cons False show ?thesis by (simp add: length_UnicodeEscape)
          qed
        qed
      next
        case nolead: False
        show ?thesis
        proof (cases "is_trailing_surrogate c")
          case True
          from "2.IH"(11) [OF _ _ _ _ _ _ _ ctl nolead True] named
          have "length cs \<le> length (quote_chars cs)" by simp
          with named ctl nolead True show ?thesis by (simp add: length_UnicodeEscape)
        next
          case False
          from "2.IH"(12) [OF _ _ _ _ _ _ _ ctl nolead False] named
          have "length cs \<le> length (quote_chars cs)" by simp
          with named ctl nolead False show ?thesis by simp
        qed
      qed
    qed
  qed
qed

lemma length_QuoteJSONString: "length s < length (QuoteJSONString s)"
  using length_quote_chars [of s] by (simp add: QuoteJSONString_def)

lemma length_JSON_stringify_User: "length (email u) < length (JSON_stringify_User u)"
  using length_QuoteJSONString [of "email u"]
  by (simp add: JSON_stringify_User_def SerializeJSONObject_def User_props_def)

lemma oversized_email_refused:
  "\<not> quota_policy 5242880 ls (js ''user'')
       (JSON_stringify_User
          \<lparr>id_User = rnd, email = replicate 6000000 0x61 @ js ''@b.com'', name = n, role = rl\<rparr>)"
  using length_JSON_stringify_User
    [of "\<lparr>id_User = rnd, email = replicate 6000000 0x61 @ js ''@b.com'', name = n, role = rl\<rparr>"]
  by (simp add: quota_policy_def js_def)

lemma mount_entry_ok:
  assumes "entry_ok (getItem ls (js ''user''))"
  shows "session_invariant (AuthProvider_mount ls) \<and>
         entry_ok (getItem (localStorage (AuthProvider_mount ls)) (js ''user''))"
  using assms
  by (auto simp: AuthProvider_mount_def restore_def entry_ok_def session_invariant_def
        setUser_def getItem_def removeItem_def split: option.splits)

lemma login_entry_ok:
  assumes "session_invariant st" "entry_ok (getItem (localStorage st) (js ''user''))" "em \<noteq> []"
  shows "session_invariant (fst (fire (login accepts em password rl) rnd st)) \<and>
         entry_ok (getItem (localStorage (fst (fire (login accepts em password rl) rnd st)))
                     (js ''user''))"
proof (cases "4 \<le> length password")
  case False
  with assms show ?thesis by (simp add: login_rejected_password)
next
  case True
  show ?thesis
  proof (cases "accepts (localStorage st) (js ''user'')
         (JSON_stringify_User
            \<lparr>id_User = rnd, email = em, name = takeWhile (\<lambda>c. c \<noteq> 0x40) em, role = rl\<rparr>)")
    case True
    with \<open>4 \<le> length password\<close> assms show ?thesis
      by (simp add: login_accepted session_invariant_def identity_ok_User_object getItem_def
            entry_ok_def JSON_parse_stringify_User)
  next
    case False
    with \<open>4 \<le> length password\<close> assms show ?thesis
      by (simp add: login_refused session_invariant_def identity_ok_User_object)
  qed
qed

lemma logout_entry_ok:
  "session_invariant (logout st) \<and> entry_ok (getItem (localStorage (logout st)) (js ''user''))"
  by (simp add: logout_def setUser_def session_invariant_def removeItem_def getItem_def
        entry_ok_def)

lemma reachable_invariant:
  "reachable st \<Longrightarrow>
     session_invariant st \<and> entry_ok (getItem (localStorage st) (js ''user''))"
proof (induction rule: reachable.induct)
  case (start ls)
  then show ?case by (rule mount_entry_ok)
next
  case (after_login st em accepts password rl rnd)
  then show ?case by (simp add: login_entry_ok)
next
  case (after_logout st)
  show ?case by (rule logout_entry_ok)
next
  case (reload st)
  then show ?case by (simp add: mount_entry_ok)
qed

section \<open>Properties of login and logout\<close>

text \<open>
  Claim C1, as the code has it. For every email, role and password of length at least
  4, when the timer of \<open>login\<close> fires the current user of the session becomes the
  object with the supplied email, the requested role and, as name, the part of the email
  before the first \<^verbatim>\<open>@\<close> (code unit 0x40). When the browser accepts the write of its
  serialization under the key \<^verbatim>\<open>user\<close>, the promise is fulfilled with \<^verbatim>\<open>true\<close>,
  the storage holds that text under the key, and the text parses back to the user.
\<close>

theorem login_success:
  assumes "4 \<le> length password"
  shows "user (fst (fire (login accepts em password rl) rnd st)) =
           JObj [(js ''id'', JStr rnd), (js ''email'', JStr em),
              (js ''name'', JStr (takeWhile (\<lambda>c. c \<noteq> 0x40) em)),
              (js ''role'', JStr (case rl of investor \<Rightarrow> js ''investor'' | admin \<Rightarrow> js ''admin''))] \<and>
         (accepts (localStorage st) (js ''user'')
            (SerializeJSONObject
              [(js ''id'', rnd), (js ''email'', em),
               (js ''name'', takeWhile (\<lambda>c. c \<noteq> 0x40) em),
               (js ''role'', case rl of investor \<Rightarrow> js ''investor'' | admin \<Rightarrow> js ''admin'')]) \<longrightarrow>
          snd (fire (login accepts em password rl) rnd st) = Fulfilled True \<and>
          localStorage (fst (fire (login accepts em password rl) rnd st)) =
            (localStorage st)(js ''user'' \<mapsto>
            SerializeJSONObject
              [(js ''id'', rnd), (js ''email'', em),
               (js ''name'', takeWhile (\<lambda>c. c \<noteq> 0x40) em),
               (js ''role'', case rl of investor \<Rightarrow> js ''investor'' | admin \<Rightarrow> js ''admin'')]) \<and>
          JSON_parse
            (SerializeJSONObject
              [(js ''id'', rnd), (js ''email'', em),
               (js ''name'', takeWhile (\<lambda>c. c \<noteq> 0x40) em),
               (js ''role'', case rl of investor \<Rightarrow> js ''investor'' | admin \<Rightarrow> js ''admin'')]) =
            Some (JObj [(js ''id'', JStr rnd), (js ''email'', JStr em),
              (js ''name'', JStr (takeWhile (\<lambda>c. c \<noteq> 0x40) em)),
              (js ''role'', JStr (case rl of investor \<Rightarrow> js ''investor'' | admin \<Rightarrow> js ''admin''))]))"
proof -
  let ?U = "\<lparr>id_User = rnd, email = em, name = takeWhile (\<lambda>c. c \<noteq> 0x40) em, role = rl\<rparr>"
  have obj: "User_object ?U =
           JObj [(js ''id'', JStr rnd), (js ''email'', JStr em),
              (js ''name'', JStr (takeWhile (\<lambda>c. c \<noteq> 0x40) em)),
              (js ''role'', JStr (case rl of investor \<Rightarrow> js ''investor'' | admin \<Rightarrow> js ''admin''))]"
    by (simp add: User_object_def User_props_def role_string_def)
  have ser: "JSON_stringify_User ?U =
            SerializeJSONObject
              [(js ''id'', rnd), (js ''email'', em),
               (js ''name'', takeWhile (\<lambda>c. c \<noteq> 0x40) em),
               (js ''role'', case rl of investor \<Rightarrow> js ''investor'' | admin \<Rightarrow> js ''admin'')]"
    by (simp add: JSON_stringify_User_def User_props_def role_string_def)
  have u: "user (fst (fire (login accepts em password rl) rnd st)) = User_object ?U"
    using assms by (rule login_sets_user)
  have p: "JSON_parse (JSON_stringify_User ?U) = Some (User_object ?U)"
    by (rule JSON_parse_stringify_User)
  have a: "accepts (localStorage st) (js ''user'') (JSON_stringify_User ?U) \<longrightarrow>
          snd (fire (login accepts em password rl) rnd st) = Fulfilled True \<and>
          localStorage (fst (fire (login accepts em password rl) rnd st)) =
            (localStorage st)(js ''user'' \<mapsto> JSON_stringify_User ?U)"
    using assms by (simp add: login_accepted)
  from u p a show ?thesis unfolding obj ser by blast
qed

text \<open>
  The example of the specification: \<^verbatim>\<open>login("a@b.com", "1234", "admin")\<close> succeeds
  with name \<^verbatim>\<open>"a"\<close> and role \<^verbatim>\<open>"admin"\<close>, in a browser with a quota of 5242880
  code units and an empty storage.
\<close>

lemma serialize_example:
  \<open>SerializeJSONObject
      [(js ''id'', js ''k3x9q0z1w''), (js ''email'', js ''a@b.com''), (js ''name'', js ''a''),
       (js ''role'', js ''admin'')] =
    js ''{"id":"k3x9q0z1w","email":"a@b.com","name":"a","role":"admin"}''\<close>
  by code_simp

theorem login_success_witness:
  \<open>4 \<le> length (js ''1234'') \<and>
   quota_policy 5242880 Map.empty (js ''user'')
     (js ''{"id":"k3x9q0z1w","email":"a@b.com","name":"a","role":"admin"}'') \<and>
   user (fst (fire (login (quota_policy 5242880) (js ''a@b.com'') (js ''1234'') admin) (js ''k3x9q0z1w'')
              \<lparr>user = JNull, localStorage = Map.empty\<rparr>)) =
     JObj [(js ''id'', JStr (js ''k3x9q0z1w'')), (js ''email'', JStr (js ''a@b.com'')),
           (js ''name'', JStr (js ''a'')), (js ''role'', JStr (js ''admin''))] \<and>
   snd (fire (login (quota_policy 5242880) (js ''a@b.com'') (js ''1234'') admin) (js ''k3x9q0z1w'')
              \<lparr>user = JNull, localStorage = Map.empty\<rparr>) = Fulfilled True \<and>
   localStorage (fst (fire (login (quota_policy 5242880) (js ''a@b.com'') (js ''1234'') admin) (js ''k3x9q0z1w'')
              \<lparr>user = JNull, localStorage = Map.empty\<rparr>)) =
     [js ''user'' \<mapsto> js ''{"id":"k3x9q0z1w","email":"a@b.com","name":"a","role":"admin"}''] \<and>
   JSON_parse (js ''{"id":"k3x9q0z1w","email":"a@b.com","name":"a","role":"admin"}'') =
     Some (JObj [(js ''id'', JStr (js ''k3x9q0z1w'')), (js ''email'', JStr (js ''a@b.com'')),
           (js ''name'', JStr (js ''a'')), (js ''role'', JStr (js ''admin''))])\<close>
proof -
  have len: "4 \<le> length (js ''1234'')" by (simp add: js_def)
  have n: "takeWhile (\<lambda>c. c \<noteq> 0x40) (js ''a@b.com'') = js ''a''" by (simp add: js_def)
  have q: \<open>quota_policy 5242880 Map.empty (js ''user'')
     (js ''{"id":"k3x9q0z1w","email":"a@b.com","name":"a","role":"admin"}'')\<close>
    by (simp add: quota_policy_def js_def)
  from login_success [OF len, where accepts = "quota_policy 5242880" and em = "js ''a@b.com''"
      and rl = admin and rnd = "js ''k3x9q0z1w''"
      and st = "\<lparr>user = JNull, localStorage = Map.empty\<rparr>"]
  show ?thesis using len q by (simp add: n serialize_example)
qed

text \<open>
  Claim C1 as stated fails where the browser refuses the write: with a password of four
  characters and an email of 6000006 code units, in a browser with a quota of 5242880
  code units, the promise is not fulfilled and nothing is stored under the key.
\<close>

theorem login_success_counterexample:
  "4 \<le> length (js ''1234'') \<and>
   snd (fire (login (quota_policy 5242880) (replicate 6000000 0x61 @ js ''@b.com'') (js ''1234'') admin)
              (js ''k3x9q0z1w'') \<lparr>user = JNull, localStorage = Map.empty\<rparr>) \<noteq> Fulfilled True \<and>
   getItem (localStorage (fst (fire (login (quota_policy 5242880) (replicate 6000000 0x61 @ js ''@b.com'') (js ''1234'') admin)
              (js ''k3x9q0z1w'') \<lparr>user = JNull, localStorage = Map.empty\<rparr>))) (js ''user'') = None"
proof -
  have len: "4 \<le> length (js ''1234'')" by (simp add: js_def)
  from login_refused [OF len, where accepts = "quota_policy 5242880"
      and st = "\<lparr>user = JNull, localStorage = Map.empty\<rparr>", OF oversized_email_refused]
  have "fire (login (quota_policy 5242880) (replicate 6000000 0x61 @ js ''@b.com'') (js ''1234'') admin)
              (js ''k3x9q0z1w'') \<lparr>user = JNull, localStorage = Map.empty\<rparr> =
      (\<lparr>user = User_object
                \<lparr>id_User = js ''k3x9q0z1w'', email = replicate 6000000 0x61 @ js ''@b.com'',
                   name = takeWhile (\<lambda>c. c \<noteq> 0x40) (replicate 6000000 0x61 @ js ''@b.com''),
                   role = admin\<rparr>,
          localStorage = Map.empty\<rparr>, Pending)"
    by simp
  then show ?thesis using len by (simp add: getItem_def)
qed

text \<open>
  Claim C2. For every email, role and password of length below 4, the promise of
  \<open>login\<close> is fulfilled with \<^verbatim>\<open>false\<close> and the session (the current user and the
  storage) is what it was.
\<close>

theorem login_failure:
  assumes "length password < 4"
  shows "fire (login accepts em password rl) rnd st = (st, Fulfilled False)"
  using assms by (simp add: fire_login login_timeout_def resolve_def)

text \<open>
  The example of the specification: \<^verbatim>\<open>login("x@y.com", "abc", "investor")\<close> fails,
  here on a session that holds a user.
\<close>

theorem login_failure_witness:
  "length (js ''abc'') < 4 \<and>
   fire (login (quota_policy 5242880) (js ''x@y.com'') (js ''abc'') investor) (js ''r4nd0m1d2'')
        \<lparr>user = JObj [(js ''email'', JStr (js ''old@y.com''))], localStorage = [js ''user'' \<mapsto> js ''kept'']\<rparr> =
     (\<lparr>user = JObj [(js ''email'', JStr (js ''old@y.com''))], localStorage = [js ''user'' \<mapsto> js ''kept'']\<rparr>,
      Fulfilled False)"
  using login_failure [where password = "js ''abc''" and em = "js ''x@y.com''" and rl = investor
      and accepts = "quota_policy 5242880"
      and rnd = "js ''r4nd0m1d2''"
      and st = "\<lparr>user = JObj [(js ''email'', JStr (js ''old@y.com''))], localStorage = [js ''user'' \<mapsto> js ''kept'']\<rparr>"]
  by (simp add: js_def)

text \<open>
  Claim C5. From every session, \<open>logout\<close> leaves no current user, so the session is not
  authenticated, and no entry under the key \<^verbatim>\<open>user\<close>; the other entries of the
  storage stay. \<open>logout\<close> has no failing branch.
\<close>

theorem logout_clears:
  "logout st = \<lparr>user = JNull, localStorage = (localStorage st)(js ''user'' := None)\<rparr> \<and>
   getItem (localStorage (logout st)) (js ''user'') = None \<and>
   \<not> isAuthenticated (AuthProvider_value (logout st))"
  by (simp add: logout_def setUser_def removeItem_def getItem_def AuthProvider_value_def)

theorem logout_clears_witness:
  "logout \<lparr>user = User_object \<lparr>id_User = js ''k3x9q0z1w'', email = js ''a@b.com'',
                                 name = js ''a'', role = admin\<rparr>,
           localStorage = [js ''user'' \<mapsto> js ''anything'', js ''theme'' \<mapsto> js ''dark'']\<rparr> =
     \<lparr>user = JNull, localStorage = [js ''theme'' \<mapsto> js ''dark'']\<rparr>"
proof -
  have "js ''theme'' \<noteq> js ''user''" by (simp add: js_def)
  then have "[js ''user'' \<mapsto> js ''anything'', js ''theme'' \<mapsto> js ''dark''](js ''user'' := None)
      = [js ''theme'' \<mapsto> js ''dark'']"
    by (auto simp: fun_eq_iff)
  with logout_clears [of "\<lparr>user = User_object \<lparr>id_User = js ''k3x9q0z1w'', email = js ''a@b.com'',
                                 name = js ''a'', role = admin\<rparr>,
           localStorage = [js ''user'' \<mapsto> js ''anything'', js ''theme'' \<mapsto> js ''dark'']\<rparr>"]
  show ?thesis by simp
qed

section \<open>Properties of the restored session\<close>

text \<open>
  Claim C6. For every user (any id, email and name, either role), storing its
  serialization under the key \<^verbatim>\<open>user\<close>, as a successful login does, and then
  mounting a provider on that storage gives an authenticated session whose user is the
  very object that was serialized. In particular a provider mounted on the storage left
  by a successful login is in the state that login left.
\<close>

theorem persist_then_restore:
  "AuthProvider_mount (ls(js ''user'' \<mapsto> JSON_stringify_User u)) =
     \<lparr>user = User_object u, localStorage = ls(js ''user'' \<mapsto> JSON_stringify_User u)\<rparr> \<and>
   isAuthenticated
     (AuthProvider_value (AuthProvider_mount (ls(js ''user'' \<mapsto> JSON_stringify_User u)))) \<and>
   (snd (fire (login accepts em password rl) rnd st) = Fulfilled True \<longrightarrow>
      AuthProvider_mount (localStorage (fst (fire (login accepts em password rl) rnd st))) =
        fst (fire (login accepts em password rl) rnd st))"
proof -
  have m: "\<And>w. AuthProvider_mount (ls(js ''user'' \<mapsto> JSON_stringify_User w)) =
     \<lparr>user = User_object w, localStorage = ls(js ''user'' \<mapsto> JSON_stringify_User w)\<rparr>" for ls
    by (simp add: AuthProvider_mount_def restore_stringify_User)
  have a: "isAuthenticated
     (AuthProvider_value (AuthProvider_mount (ls(js ''user'' \<mapsto> JSON_stringify_User u))))"
    by (simp add: m AuthProvider_value_def User_object_def)
  have l: "snd (fire (login accepts em password rl) rnd st) = Fulfilled True \<longrightarrow>
      AuthProvider_mount (localStorage (fst (fire (login accepts em password rl) rnd st))) =
        fst (fire (login accepts em password rl) rnd st)"
    by (simp add: login_fulfilled_iff) (simp add: login_accepted m)
  from m [of ls u] a l show ?thesis by blast
qed

lemma stringify_example:
  \<open>JSON_stringify_User
      \<lparr>id_User = js ''k3x9q0z1w'', email = js ''a@b.com'', name = js ''a'', role = admin\<rparr> =
    js ''{"id":"k3x9q0z1w","email":"a@b.com","name":"a","role":"admin"}''\<close>
  by code_simp

lemma example_login_fulfilled:
  "fire (login (quota_policy 5242880) (js ''a@b.com'') (js ''1234'') admin) (js ''k3x9q0z1w'') st =
     (\<lparr>user = User_object
               \<lparr>id_User = js ''k3x9q0z1w'', email = js ''a@b.com'', name = js ''a'', role = admin\<rparr>,
       localStorage = (localStorage st)
         (js ''user'' \<mapsto> JSON_stringify_User
               \<lparr>id_User = js ''k3x9q0z1w'', email = js ''a@b.com'', name = js ''a'', role = admin\<rparr>)\<rparr>,
      Fulfilled True)"
proof -
  have len: "4 \<le> length (js ''1234'')" by (simp add: js_def)
  have n: "takeWhile (\<lambda>c. c \<noteq> 0x40) (js ''a@b.com'') = js ''a''" by (simp add: js_def)
  have q: "quota_policy 5242880 (localStorage st) (js ''user'')
     (JSON_stringify_User
        \<lparr>id_User = js ''k3x9q0z1w'', email = js ''a@b.com'', name = js ''a'', role = admin\<rparr>)"
    unfolding stringify_example by (simp add: quota_policy_def js_def)
  from login_accepted [OF len, where accepts = "quota_policy 5242880" and em = "js ''a@b.com''"
      and rl = admin and rnd = "js ''k3x9q0z1w''" and st = st] q
  show ?thesis by (simp add: n)
qed

theorem persist_then_restore_witness:
  \<open>AuthProvider_mount
      [js ''user'' \<mapsto> js ''{"id":"k3x9q0z1w","email":"a@b.com","name":"a","role":"admin"}''] =
     \<lparr>user = JObj [(js ''id'', JStr (js ''k3x9q0z1w'')), (js ''email'', JStr (js ''a@b.com'')),
                   (js ''name'', JStr (js ''a'')), (js ''role'', JStr (js ''admin''))],
      localStorage =
        [js ''user'' \<mapsto> js ''{"id":"k3x9q0z1w","email":"a@b.com","name":"a","role":"admin"}'']\<rparr> \<and>
   snd (fire (login (quota_policy 5242880) (js ''a@b.com'') (js ''1234'') admin) (js ''k3x9q0z1w'')
              \<lparr>user = JNull, localStorage = Map.empty\<rparr>) = Fulfilled True \<and>
   AuthProvider_mount (localStorage (fst (fire (login (quota_policy 5242880) (js ''a@b.com'') (js ''1234'') admin) (js ''k3x9q0z1w'')
              \<lparr>user = JNull, localStorage = Map.empty\<rparr>))) =
     fst (fire (login (quota_policy 5242880) (js ''a@b.com'') (js ''1234'') admin) (js ''k3x9q0z1w'')
              \<lparr>user = JNull, localStorage = Map.empty\<rparr>)\<close>
proof -
  have f: "snd (fire (login (quota_policy 5242880) (js ''a@b.com'') (js ''1234'') admin) (js ''k3x9q0z1w'')
              \<lparr>user = JNull, localStorage = Map.empty\<rparr>) = Fulfilled True"
    by (simp add: example_login_fulfilled)
  from persist_then_restore [where ls = Map.empty
      and u = "\<lparr>id_User = js ''k3x9q0z1w'', email = js ''a@b.com'', name = js ''a'', role = admin\<rparr>"
      and password = "js ''1234''" and em = "js ''a@b.com''" and rl = admin
      and accepts = "quota_policy 5242880"
      and rnd = "js ''k3x9q0z1w''" and st = "\<lparr>user = JNull, localStorage = Map.empty\<rparr>"]
  show ?thesis
    using f
    by (simp add: stringify_example User_object_def User_props_def role_string_def)
qed

text \<open>
  Claim C7, as the code has it. What decides is \<^verbatim>\<open>JSON.parse\<close>. A persisted value
  that it rejects is never installed when the provider mounts and raises nothing: the
  user stays \<^verbatim>\<open>null\<close>, the session is not authenticated, and the entry is removed
  (any text but the empty one) or left alone and ignored (the empty text, which
  \<^verbatim>\<open>if (savedUser)\<close> skips). A persisted value that it accepts is installed as the
  current user and kept in the storage, whatever its shape, and the session is
  authenticated exactly when that value is truthy.
\<close>

theorem restore_follows_parse:
  "(JSON_parse savedUser = None \<longrightarrow>
      AuthProvider_mount (ls(js ''user'' \<mapsto> savedUser)) =
        \<lparr>user = JNull,
         localStorage = (if savedUser = [] then ls(js ''user'' \<mapsto> savedUser)
                         else ls(js ''user'' := None))\<rparr> \<and>
      \<not> isAuthenticated
          (AuthProvider_value (AuthProvider_mount (ls(js ''user'' \<mapsto> savedUser))))) \<and>
   (JSON_parse savedUser = Some v \<longrightarrow>
      AuthProvider_mount (ls(js ''user'' \<mapsto> savedUser)) =
        \<lparr>user = v, localStorage = ls(js ''user'' \<mapsto> savedUser)\<rparr> \<and>
      isAuthenticated
          (AuthProvider_value (AuthProvider_mount (ls(js ''user'' \<mapsto> savedUser)))) = truthy v)"
proof -
  have e: "JSON_parse [] = None" by (simp add: JSON_parse_def)
  have n: "JSON_parse savedUser = Some v \<Longrightarrow> savedUser \<noteq> []"
    using e by auto
  show ?thesis
    using n
    by (auto simp: AuthProvider_mount_def restore_def getItem_def removeItem_def setUser_def
          AuthProvider_value_def)
qed

lemma truncated_entry_rejected:
  \<open>JSON_parse (js ''{"id":"k3x9q0z1w","email":"a@b.c'') = None\<close>
  by code_simp

lemma null_entry_parsed: "JSON_parse (js ''null'') = Some JNull"
  by code_simp

theorem restore_follows_parse_witness:
  \<open>JSON_parse (js ''{"id":"k3x9q0z1w","email":"a@b.c'') = None \<and>
   AuthProvider_mount
      [js ''theme'' \<mapsto> js ''dark'', js ''user'' \<mapsto> js ''{"id":"k3x9q0z1w","email":"a@b.c''] =
     \<lparr>user = JNull, localStorage = [js ''theme'' \<mapsto> js ''dark'']\<rparr> \<and>
   JSON_parse (js ''null'') = Some JNull \<and>
   AuthProvider_mount [js ''user'' \<mapsto> js ''null''] =
     \<lparr>user = JNull, localStorage = [js ''user'' \<mapsto> js ''null'']\<rparr>\<close>
proof -
  have ne: "js ''{\"id\":\"k3x9q0z1w\",\"email\":\"a@b.c'' \<noteq> []" by (simp add: js_def)
  have k: "js ''user'' \<noteq> js ''theme''" by (simp add: js_def)
  then have m: "[js ''theme'' \<mapsto> js ''dark''](js ''user'' := None) = [js ''theme'' \<mapsto> js ''dark'']"
    by (auto simp: fun_eq_iff)
  from restore_follows_parse [where savedUser = "js ''{\"id\":\"k3x9q0z1w\",\"email\":\"a@b.c''"
      and ls = "[js ''theme'' \<mapsto> js ''dark'']"]
    restore_follows_parse [where savedUser = "js ''null''" and ls = Map.empty and v = JNull]
  show ?thesis using ne m truncated_entry_rejected null_entry_parsed by simp
qed

text \<open>
  Claim C7 as stated fails for a persisted value that is no identity and yet parses: a
  stored \<^verbatim>\<open>[]\<close> is installed as the current user and the session is authenticated.
\<close>

theorem restore_installs_non_identity:
  "\<not> identity_ok (JArr []) \<and>
   AuthProvider_mount [js ''user'' \<mapsto> js ''[]''] =
     \<lparr>user = JArr [], localStorage = [js ''user'' \<mapsto> js ''[]'']\<rparr> \<and>
   isAuthenticated (AuthProvider_value (AuthProvider_mount [js ''user'' \<mapsto> js ''[]'']))"
proof -
  have p: "JSON_parse (js ''[]'') = Some (JArr [])" by code_simp
  have ne: "js ''[]'' \<noteq> []" by (simp add: js_def)
  have m: "AuthProvider_mount [js ''user'' \<mapsto> js ''[]''] =
     \<lparr>user = JArr [], localStorage = [js ''user'' \<mapsto> js ''[]'']\<rparr>"
    using ne by (simp add: AuthProvider_mount_def restore_def getItem_def p setUser_def)
  have i: "\<not> identity_ok (JArr [])" by (simp add: identity_ok_def)
  from i m show ?thesis by (simp add: AuthProvider_value_def)
qed

section \<open>Properties of useAuth and of the login promise\<close>

text \<open>
  Claim C8. \<open>useAuth\<close> called in a component with no enclosing provider throws the
  error of the source; called with an enclosing provider it returns the value of the
  nearest one and throws nothing.
\<close>

theorem useAuth_scope:
  "useAuth [] = Inl (Error (js ''useAuth debe ser usado dentro de un AuthProvider'')) \<and>
   useAuth (st # outer) = Inr (AuthProvider_value st)"
  by (simp add: useAuth_def useContext_def)

theorem useAuth_scope_witness:
  "useAuth [] = Inl (Error (js ''useAuth debe ser usado dentro de un AuthProvider'')) \<and>
   useAuth [\<lparr>user = JNull, localStorage = Map.empty\<rparr>] =
     Inr \<lparr>ctx_user = JNull, isAuthenticated = False\<rparr>"
  using useAuth_scope [of "\<lparr>user = JNull, localStorage = Map.empty\<rparr>" "[]"]
  by (simp add: AuthProvider_value_def)

text \<open>
  Claim C9 does not hold of the code. A call of \<open>login\<close> returns a pending promise and
  sets one timer of 500 ms; with a password of four characters and an email of 6000006
  code units, in a browser with a quota of 5242880 code units, \<open>setItem\<close> throws in
  the callback before \<^verbatim>\<open>resolve(true)\<close>, so that after the timer has fired the
  promise is still pending, for every id drawn and every session, and nothing else
  will settle it. In general the promise after the timer is fulfilled with \<^verbatim>\<open>false\<close>
  for a password shorter than 4, fulfilled with \<^verbatim>\<open>true\<close> when the browser accepts
  the write, and pending when it refuses.
\<close>

theorem login_hangs_when_write_refused:
  "promise (login (quota_policy 5242880) (replicate 6000000 0x61 @ js ''@b.com'') (js ''1234'') admin) =
     Pending \<and>
   delay (login (quota_policy 5242880) (replicate 6000000 0x61 @ js ''@b.com'') (js ''1234'') admin) =
     500 \<and>
   snd (fire (login (quota_policy 5242880) (replicate 6000000 0x61 @ js ''@b.com'') (js ''1234'') admin)
              rnd st) = Pending \<and>
   snd (fire (login accepts em password rl) rnd st) =
     (if length password < 4 then Fulfilled False
      else if accepts (localStorage st) (js ''user'')
                (JSON_stringify_User
                   \<lparr>id_User = rnd, email = em, name = takeWhile (\<lambda>c. c \<noteq> 0x40) em,
                      role = rl\<rparr>)
           then Fulfilled True
           else Pending)"
proof -
  have len: "4 \<le> length (js ''1234'')" by (simp add: js_def)
  from login_refused [OF len, where accepts = "quota_policy 5242880" and st = st and rnd = rnd,
      OF oversized_email_refused]
  have h: "snd (fire (login (quota_policy 5242880) (replicate 6000000 0x61 @ js ''@b.com'') (js ''1234'') admin)
              rnd st) = Pending"
    by simp
  have g: "snd (fire (login accepts em password rl) rnd st) =
     (if length password < 4 then Fulfilled False
      else if accepts (localStorage st) (js ''user'')
                (JSON_stringify_User
                   \<lparr>id_User = rnd, email = em, name = takeWhile (\<lambda>c. c \<noteq> 0x40) em,
                      role = rl\<rparr>)
           then Fulfilled True
           else Pending)"
    by (simp add: login_rejected_password login_accepted login_refused not_less)
  from h g show ?thesis by (simp add: login_def)
qed

section \<open>Properties of the dashboard\<close>

text \<open>
  Claim C4. For every user object and every KPI record, the dashboard inside a provider
  renders the investor view, with its four KPI cards, when the role is
  \<^verbatim>\<open>investor\<close>, and the administrator view, with its ten KPI cards, when the role
  is \<^verbatim>\<open>admin\<close>. The two views differ, and whatever the providers and the user are,
  the component renders one of the two or, outside any provider, throws.
\<close>

theorem view_selector:
  "(user st = User_object u \<and> role u = investor \<longrightarrow>
      Dashboard lib (st # outer) kpiData = Inr (investor_view lib kpiData)) \<and>
   (user st = User_object u \<and> role u = admin \<longrightarrow>
      Dashboard lib (st # outer) kpiData = Inr (admin_view lib kpiData)) \<and>
   headings (investor_view lib kpiData) = [js ''Dashboard de Inversionista''] \<and>
   map card_title (kpi_cards (investor_view lib kpiData)) =
     [js ''RevPAR'', js ''Ganancia Neta'', js ''Ocupaci'' @ [0xF3] @ js ''n Promedio'',
      js ''Ventas Totales''] \<and>
   headings (admin_view lib kpiData) = [js ''Dashboard Administrativo''] \<and>
   length (kpi_cards (admin_view lib kpiData)) = 10 \<and>
   investor_view lib kpiData \<noteq> admin_view lib kpiData \<and>
   (case Dashboard lib providers kpiData of
      Inl e \<Rightarrow> providers = []
    | Inr view \<Rightarrow> view = investor_view lib kpiData \<or> view = admin_view lib kpiData)"
proof -
  have sel: "user st = User_object u \<and> role u = investor \<longrightarrow>
      Dashboard lib (st # outer) kpiData = Inr (investor_view lib kpiData)"
    by (simp add: Dashboard_inside optional_role_User_object role_string_investor)
  have sel': "user st = User_object u \<and> role u = admin \<longrightarrow>
      Dashboard lib (st # outer) kpiData = Inr (admin_view lib kpiData)"
    by (simp add: Dashboard_inside optional_role_User_object role_string_investor)
  have hi: "headings (investor_view lib kpiData) = [js ''Dashboard de Inversionista'']"
    by (simp add: investor_view_def)
  have ci: "map card_title (kpi_cards (investor_view lib kpiData)) =
     [js ''RevPAR'', js ''Ganancia Neta'', js ''Ocupaci'' @ [0xF3] @ js ''n Promedio'',
      js ''Ventas Totales'']"
    by (simp add: investor_view_def)
  have ha: "headings (admin_view lib kpiData) = [js ''Dashboard Administrativo'']"
    by (simp add: admin_view_def)
  have ca: "length (kpi_cards (admin_view lib kpiData)) = 10"
    by (simp add: admin_view_def)
  have "js ''Dashboard de Inversionista'' \<noteq> js ''Dashboard Administrativo''"
    by (simp add: js_def)
  with hi ha have ne: "investor_view lib kpiData \<noteq> admin_view lib kpiData"
    by auto
  have two: "(case Dashboard lib providers kpiData of
      Inl e \<Rightarrow> providers = []
    | Inr view \<Rightarrow> view = investor_view lib kpiData \<or> view = admin_view lib kpiData)"
  proof (cases providers)
    case Nil
    then show ?thesis by (simp add: Dashboard_def useAuth_def useContext_def)
  next
    case (Cons s ss)
    then show ?thesis by (simp add: Dashboard_inside)
  qed
  from sel sel' hi ci ha ca ne two show ?thesis by blast
qed

theorem view_selector_witness:
  "Dashboard sample_lib
     [\<lparr>user = User_object \<lparr>id_User = js ''k3x9q0z1w'', email = js ''i@fund.com'',
                            name = js ''i'', role = investor\<rparr>,
       localStorage = Map.empty\<rparr>] sample_kpi = Inr (investor_view sample_lib sample_kpi) \<and>
   Dashboard sample_lib
     [\<lparr>user = User_object \<lparr>id_User = js ''k3x9q0z1w'', email = js ''a@b.com'',
                            name = js ''a'', role = admin\<rparr>,
       localStorage = Map.empty\<rparr>] sample_kpi = Inr (admin_view sample_lib sample_kpi) \<and>
   length (kpi_cards (investor_view sample_lib sample_kpi)) = 4 \<and>
   length (kpi_cards (admin_view sample_lib sample_kpi)) = 10"
  using
    view_selector [where st = "\<lparr>user = User_object \<lparr>id_User = js ''k3x9q0z1w'',
          email = js ''i@fund.com'', name = js ''i'', role = investor\<rparr>, localStorage = Map.empty\<rparr>"
      and u = "\<lparr>id_User = js ''k3x9q0z1w'', email = js ''i@fund.com'', name = js ''i'',
          role = investor\<rparr>"
      and outer = "[]" and lib = sample_lib and kpiData = sample_kpi and providers = "[]"]
    view_selector [where st = "\<lparr>user = User_object \<lparr>id_User = js ''k3x9q0z1w'',
          email = js ''a@b.com'', name = js ''a'', role = admin\<rparr>, localStorage = Map.empty\<rparr>"
      and u = "\<lparr>id_User = js ''k3x9q0z1w'', email = js ''a@b.com'', name = js ''a'',
          role = admin\<rparr>"
      and outer = "[]" and lib = sample_lib and kpiData = sample_kpi and providers = "[]"]
  by (simp add: investor_view_def)

text \<open>
  Claim C10. With no user (\<^verbatim>\<open>null\<close>) the dashboard renders the administrator view:
  that view is the branch taken whenever \<^verbatim>\<open>user?.role\<close> is not the string
  \<^verbatim>\<open>investor\<close>, and \<^verbatim>\<open>user?.role\<close> of \<^verbatim>\<open>null\<close> is \<^verbatim>\<open>undefined\<close>. The
  administrator view is the extended one: the heading \<^verbatim>\<open>Dashboard Administrativo\<close>,
  ten KPI cards and five charts, and it is not the investor view.
\<close>

theorem dashboard_default_admin:
  "(user st = JNull \<longrightarrow> Dashboard lib (st # outer) kpiData = Inr (admin_view lib kpiData)) \<and>
   (optional_role (user st) \<noteq> Some (JStr (js ''investor'')) \<longrightarrow>
      Dashboard lib (st # outer) kpiData = Inr (admin_view lib kpiData)) \<and>
   headings (admin_view lib kpiData) = [js ''Dashboard Administrativo''] \<and>
   map card_title (kpi_cards (admin_view lib kpiData)) =
     [js ''% Ocupaci'' @ [0xF3] @ js ''n'', js ''Ventas'', js ''ADR'', js ''RevPAR'',
      js ''Presupuesto a hoy'', js ''Forecast de ventas'', js ''Tarifa promedio (Per)'',
      js ''Gastos y costos'', js ''Utilidad/Perdida'', js ''FARA''] \<and>
   chart_titles (admin_view lib kpiData) =
     [js ''Total ventas'',
      js ''Evoluci'' @ [0xF3] @ js ''n tasa de ocupaci'' @ [0xF3] @ js ''n'',
      js ''Evoluci'' @ [0xF3] @ js ''n tarifa promedio'',
      js ''Evoluci'' @ [0xF3] @ js ''n RevPAR'',
      js ''Propiedad - Comparaci'' @ [0xF3] @ js ''n de Ratings''] \<and>
   admin_view lib kpiData \<noteq> investor_view lib kpiData"
proof -
  have b: "(user st = JNull \<longrightarrow> Dashboard lib (st # outer) kpiData = Inr (admin_view lib kpiData)) \<and>
   (optional_role (user st) \<noteq> Some (JStr (js ''investor'')) \<longrightarrow>
      Dashboard lib (st # outer) kpiData = Inr (admin_view lib kpiData))"
    by (simp add: Dashboard_inside) (simp add: optional_role_def)
  have h: "headings (admin_view lib kpiData) = [js ''Dashboard Administrativo'']"
    by (simp add: admin_view_def)
  have c: "map card_title (kpi_cards (admin_view lib kpiData)) =
     [js ''% Ocupaci'' @ [0xF3] @ js ''n'', js ''Ventas'', js ''ADR'', js ''RevPAR'',
      js ''Presupuesto a hoy'', js ''Forecast de ventas'', js ''Tarifa promedio (Per)'',
      js ''Gastos y costos'', js ''Utilidad/Perdida'', js ''FARA'']"
    by (simp add: admin_view_def)
  have g: "chart_titles (admin_view lib kpiData) =
     [js ''Total ventas'',
      js ''Evoluci'' @ [0xF3] @ js ''n tasa de ocupaci'' @ [0xF3] @ js ''n'',
      js ''Evoluci'' @ [0xF3] @ js ''n tarifa promedio'',
      js ''Evoluci'' @ [0xF3] @ js ''n RevPAR'',
      js ''Propiedad - Comparaci'' @ [0xF3] @ js ''n de Ratings'']"
    by (simp add: admin_view_def)
  have "length (kpi_cards (admin_view lib kpiData)) \<noteq> length (kpi_cards (investor_view lib kpiData))"
    by (simp add: admin_view_def investor_view_def)
  then have d: "admin_view lib kpiData \<noteq> investor_view lib kpiData"
    by auto
  from b h c g d show ?thesis by blast
qed

theorem dashboard_default_admin_witness:
  "Dashboard sample_lib [\<lparr>user = JNull, localStorage = Map.empty\<rparr>] sample_kpi =
     Inr (admin_view sample_lib sample_kpi) \<and>
   optional_role (JObj [(js ''role'', JStr (js ''guest''))]) \<noteq> Some (JStr (js ''investor'')) \<and>
   Dashboard sample_lib
     [\<lparr>user = JObj [(js ''role'', JStr (js ''guest''))], localStorage = Map.empty\<rparr>] sample_kpi =
     Inr (admin_view sample_lib sample_kpi) \<and>
   headings (admin_view sample_lib sample_kpi) = [js ''Dashboard Administrativo''] \<and>
   length (kpi_cards (admin_view sample_lib sample_kpi)) = 10 \<and>
   length (chart_titles (admin_view sample_lib sample_kpi)) = 5 \<and>
   kpi_cards (admin_view sample_lib sample_kpi) ! 9 =
     KPICard (js ''FARA'') (js ''$0'') None (Some Neutral) (Some (js ''0%''))"
proof -
  have g: "optional_role (JObj [(js ''role'', JStr (js ''guest''))]) \<noteq> Some (JStr (js ''investor''))"
    by (simp add: optional_role_def get_prop_def js_def)
  have k: "kpi_cards (admin_view sample_lib sample_kpi) ! 9 =
     KPICard (js ''FARA'') (js ''$0'') None (Some Neutral) (Some (js ''0%''))"
    by (simp add: admin_view_def sample_lib_def)
  from dashboard_default_admin [of "\<lparr>user = JNull, localStorage = Map.empty\<rparr>" sample_lib "[]" sample_kpi]
    have 1: "Dashboard sample_lib [\<lparr>user = JNull, localStorage = Map.empty\<rparr>] sample_kpi =
     Inr (admin_view sample_lib sample_kpi)"
      and 2: "headings (admin_view sample_lib sample_kpi) = [js ''Dashboard Administrativo'']"
      and 3: "length (map card_title (kpi_cards (admin_view sample_lib sample_kpi))) = 10"
      and 4: "length (chart_titles (admin_view sample_lib sample_kpi)) = 5"
    by simp_all
  from dashboard_default_admin [of "\<lparr>user = JObj [(js ''role'', JStr (js ''guest''))],
        localStorage = Map.empty\<rparr>" sample_lib "[]" sample_kpi] g
  have 5: "Dashboard sample_lib
     [\<lparr>user = JObj [(js ''role'', JStr (js ''guest''))], localStorage = Map.empty\<rparr>] sample_kpi =
     Inr (admin_view sample_lib sample_kpi)"
    by simp
  from 1 2 3 4 5 g k show ?thesis by simp
qed

section \<open>The invariant of the session\<close>

text \<open>
  Claim C3, as the code has it. If the current user is \<^verbatim>\<open>null\<close> or has a non-empty
  email and one of the two roles, then this still holds after \<open>logout\<close>, after a
  \<open>login\<close> with a non-empty email, and after \<open>restore\<close> when the persisted entry is
  absent, empty, rejected by \<^verbatim>\<open>JSON.parse\<close>, or parses to \<^verbatim>\<open>null\<close> or to such a
  user; the entry that a successful login with a non-empty email writes is of that
  kind; and so the property holds in every session reached from such an entry by
  logins with a non-empty email, logouts and reloads, whatever writes the browser
  accepts. (\<open>login\<close> does not look at the
  email, which the login form checks before it calls; \<open>restore\<close> installs whatever
  \<^verbatim>\<open>JSON.parse\<close> returns.)
\<close>

theorem session_invariant_guarded:
  assumes "session_invariant st"
  shows "(em \<noteq> [] \<longrightarrow> session_invariant (fst (fire (login accepts em password rl) rnd st))) \<and>
         session_invariant (logout st) \<and>
         (entry_ok (getItem (localStorage st) (js ''user'')) \<longrightarrow> session_invariant (restore st)) \<and>
         (em \<noteq> [] \<and> snd (fire (login accepts em password rl) rnd st) = Fulfilled True \<longrightarrow>
            entry_ok (getItem (localStorage (fst (fire (login accepts em password rl) rnd st)))
                        (js ''user''))) \<and>
         (reachable st' \<longrightarrow> session_invariant st')"
proof -
  have a: "em \<noteq> [] \<longrightarrow> session_invariant (fst (fire (login accepts em password rl) rnd st))"
  proof (cases "4 \<le> length password")
    case True
    then show ?thesis
      by (simp add: session_invariant_def login_sets_user identity_ok_User_object)
  next
    case False
    with assms show ?thesis by (simp add: login_rejected_password)
  qed
  have b: "session_invariant (logout st)"
    by (simp add: logout_def setUser_def session_invariant_def)
  have c: "entry_ok (getItem (localStorage st) (js ''user'')) \<longrightarrow> session_invariant (restore st)"
    using assms
    by (auto simp: entry_ok_def restore_def session_invariant_def setUser_def
          split: option.splits)
  have d: "em \<noteq> [] \<and> snd (fire (login accepts em password rl) rnd st) = Fulfilled True \<longrightarrow>
            entry_ok (getItem (localStorage (fst (fire (login accepts em password rl) rnd st)))
                        (js ''user''))"
    by (simp add: login_fulfilled_iff)
       (simp add: login_accepted getItem_def entry_ok_def JSON_parse_stringify_User
          identity_ok_User_object)
  have e: "reachable st' \<longrightarrow> session_invariant st'"
    by (simp add: reachable_invariant)
  from a b c d e show ?thesis by blast
qed

theorem session_invariant_guarded_witness:
  "session_invariant \<lparr>user = JNull, localStorage = Map.empty\<rparr> \<and>
   session_invariant
     (fst (fire (login (quota_policy 5242880) (js ''a@b.com'') (js ''1234'') admin) (js ''k3x9q0z1w'')
                \<lparr>user = JNull, localStorage = Map.empty\<rparr>)) \<and>
   session_invariant (logout \<lparr>user = JNull, localStorage = Map.empty\<rparr>) \<and>
   session_invariant (restore \<lparr>user = JNull, localStorage = Map.empty\<rparr>) \<and>
   entry_ok
     (getItem (localStorage
        (fst (fire (login (quota_policy 5242880) (js ''a@b.com'') (js ''1234'') admin) (js ''k3x9q0z1w'')
                   \<lparr>user = JNull, localStorage = Map.empty\<rparr>))) (js ''user'')) \<and>
   reachable
     (fst (fire (login (quota_policy 5242880) (js ''a@b.com'') (js ''1234'') admin) (js ''k3x9q0z1w'')
                (AuthProvider_mount Map.empty))) \<and>
   session_invariant
     (fst (fire (login (quota_policy 5242880) (js ''a@b.com'') (js ''1234'') admin) (js ''k3x9q0z1w'')
                (AuthProvider_mount Map.empty)))"
proof -
  have i: "session_invariant \<lparr>user = JNull, localStorage = Map.empty\<rparr>"
    by (simp add: session_invariant_def)
  have e: "entry_ok (getItem (localStorage \<lparr>user = JNull, localStorage = Map.empty\<rparr>) (js ''user''))"
    by (simp add: entry_ok_def getItem_def)
  have n: "js ''a@b.com'' \<noteq> []" "4 \<le> length (js ''1234'')"
    by (simp_all add: js_def)
  from e have "reachable (AuthProvider_mount Map.empty)"
    by (auto intro: reachable.start)
  then have r: "reachable
     (fst (fire (login (quota_policy 5242880) (js ''a@b.com'') (js ''1234'') admin) (js ''k3x9q0z1w'')
                (AuthProvider_mount Map.empty)))"
    using n(1) by (rule reachable.after_login)
  have f: "snd (fire (login (quota_policy 5242880) (js ''a@b.com'') (js ''1234'') admin)
                  (js ''k3x9q0z1w'') \<lparr>user = JNull, localStorage = Map.empty\<rparr>) = Fulfilled True"
    by (simp add: example_login_fulfilled)
  from session_invariant_guarded [OF i, where em = "js ''a@b.com''" and password = "js ''1234''"
      and rl = admin and rnd = "js ''k3x9q0z1w''" and accepts = "quota_policy 5242880"
      and st' = "fst (fire (login (quota_policy 5242880) (js ''a@b.com'') (js ''1234'') admin)
                (js ''k3x9q0z1w'') (AuthProvider_mount Map.empty))"]
    i e n r f
  show ?thesis by simp
qed

text \<open>
  Claim C3 as stated fails on two of the three operations: \<open>login\<close> with the empty
  email installs a user whose email is empty, and mounting on a stored
  \<^verbatim>\<open>{"role":"guest"}\<close> installs a user with no email and a role outside the enum.
\<close>

theorem session_invariant_counterexample:
  \<open>session_invariant \<lparr>user = JNull, localStorage = Map.empty\<rparr> \<and>
   \<not> session_invariant
       (fst (fire (login (quota_policy 5242880) [] (js ''1234'') admin) (js ''k3x9q0z1w'')
                  \<lparr>user = JNull, localStorage = Map.empty\<rparr>)) \<and>
   \<not> session_invariant (AuthProvider_mount [js ''user'' \<mapsto> js ''{"role":"guest"}''])\<close>
proof -
  have p: \<open>JSON_parse (js ''{"role":"guest"}'') = Some (JObj [(js ''role'', JStr (js ''guest''))])\<close>
    by code_simp
  have ne: \<open>js ''{"role":"guest"}'' \<noteq> []\<close> by (simp add: js_def)
  have 1: "session_invariant \<lparr>user = JNull, localStorage = Map.empty\<rparr>"
    by (simp add: session_invariant_def)
  have 2: "\<not> session_invariant
       (fst (fire (login (quota_policy 5242880) [] (js ''1234'') admin) (js ''k3x9q0z1w'')
                  \<lparr>user = JNull, localStorage = Map.empty\<rparr>))"
    by (simp add: login_sets_user session_invariant_def identity_ok_User_object
          User_object_not_null js_def)
  have 3: \<open>\<not> session_invariant (AuthProvider_mount [js ''user'' \<mapsto> js ''{"role":"guest"}''])\<close>
    using ne
    by (simp add: AuthProvider_mount_def restore_def getItem_def p setUser_def
          session_invariant_def identity_ok_def get_prop_def)
       (simp add: js_def)
  from 1 2 3 show ?thesis by blast
qed

end
